(* ===== verification/Prelude.thy ===== *)
theory Prelude
  imports Main "HOL-Library.Sublist"
begin

text \<open>
  Shared vocabulary of the development. The repository is Python; its values are
  modelled as follows:
  \<^item> a Python \<open>str\<close> is a HOL \<^typ>\<open>string\<close> holding its UTF-8 bytes. The source's
    literals are ASCII except for the Korean report texts; those are written as ASCII
    runs and code-point runs passed through \<open>utf8\<close>, so each literal is the byte
    sequence the program really holds. Concatenation of Python strings is \<open>@\<close> on the
    encodings;
  \<^item> the Python string operations the code uses are defined here once:
    \<open>needle in haystack\<close> is \<open>py_in\<close>, \<open>s.lower()\<close> is \<open>py_lower\<close>,
    \<open>s.replace(old, new)\<close> is \<open>py_replace\<close>, \<open>sep.join(xs)\<close> is \<open>py_join\<close>, and
    \<open>str(x)\<close> of an optional value is \<open>py_str_opt\<close>;
  \<^item> a moment of time is an \<open>int\<close> count of microseconds (the resolution of
    Python's \<open>datetime\<close>), so that \<open>datetime\<close> differences and \<open>timedelta\<close>
    comparisons are integer comparisons.
  \<open>py_lower\<close> lowers the ASCII letters only. The code lowers an error message to look
  for the ASCII tokens \<open>404\<close>, \<open>429\<close> and \<open>quota\<close>; the only non-ASCII code
  points whose Unicode lower case contains an ASCII letter give \<open>i\<close> or \<open>k\<close>, which none
  of these tokens contains, so for this use the ASCII lowering decides the same.
\<close>

named_theorems pystr "equations of the Python string primitives"

type_synonym url = string
type_synonym model_id = string
type_synonym timestamp = int

section \<open>Literals: UTF-8 encoding of code points\<close>

definition utf8_char :: "nat \<Rightarrow> string" where
  "utf8_char c =
     (if c < 0x80 then [char_of c]
      else if c < 0x800 then [char_of (0xC0 + c div 0x40), char_of (0x80 + c mod 0x40)]
      else if c < 0x10000 then
        [char_of (0xE0 + c div 0x1000), char_of (0x80 + (c div 0x40) mod 0x40),
         char_of (0x80 + c mod 0x40)]
      else
        [char_of (0xF0 + c div 0x40000), char_of (0x80 + (c div 0x1000) mod 0x40),
         char_of (0x80 + (c div 0x40) mod 0x40), char_of (0x80 + c mod 0x40)])"

definition utf8 :: "nat list \<Rightarrow> string" where
  "utf8 cs = concat (map utf8_char cs)"

section \<open>Python string operations\<close>

text \<open>\<open>s.lower()\<close> on the ASCII range.\<close>

definition py_lower_char :: "char \<Rightarrow> char" where
  "py_lower_char c =
     (let n = (of_char c :: nat) in if 65 \<le> n \<and> n \<le> 90 then char_of (n + 32) else c)"

definition py_lower :: "string \<Rightarrow> string" where
  "py_lower s = map py_lower_char s"

text \<open>\<open>needle in haystack\<close> for strings: substring search, scanning left to right.\<close>

fun py_in :: "string \<Rightarrow> string \<Rightarrow> bool" where
  "py_in needle [] \<longleftrightarrow> needle = []"
| "py_in needle (c # cs) \<longleftrightarrow> prefix needle (c # cs) \<or> py_in needle cs"

text \<open>
  \<open>s.replace(old, new)\<close>: every non-overlapping occurrence of \<open>old\<close>, found left to
  right, is replaced. The code calls it with the non-empty \<open>old = 'models/'\<close>; for an
  empty \<open>old\<close> the model leaves the string unchanged.
\<close>

function py_replace :: "string \<Rightarrow> string \<Rightarrow> string \<Rightarrow> string" where
  "py_replace old new [] = []"
| "py_replace old new (c # cs) =
     (if old \<noteq> [] \<and> prefix old (c # cs)
      then new @ py_replace old new (drop (length old) (c # cs))
      else c # py_replace old new cs)"
  by pat_completeness auto
termination
  by (relation "measure (\<lambda>(old, new, s). length s)") (auto simp: prefix_def)

text \<open>\<open>sep.join(xs)\<close>.\<close>

fun py_join :: "string \<Rightarrow> string list \<Rightarrow> string" where
  "py_join sep [] = []"
| "py_join sep [x] = x"
| "py_join sep (x # y # ys) = x @ sep @ py_join sep (y # ys)"

text \<open>\<open>str(x)\<close> for a value that may be \<open>None\<close>.\<close>

fun py_str_opt :: "string option \<Rightarrow> string" where
  "py_str_opt None = ''None''"
| "py_str_opt (Some s) = s"

section \<open>Lemmas on the string primitives\<close>

lemma py_in_sublist [pystr]: "py_in needle h \<longleftrightarrow> sublist needle h"
  by (induction h) (auto simp: sublist_Cons_right)

lemma py_in_append_left [pystr]: "py_in needle h \<Longrightarrow> py_in needle (h @ t)"
  by (simp add: py_in_sublist sublist_def) (metis append.assoc)

lemma py_in_append_right [pystr]: "py_in needle t \<Longrightarrow> py_in needle (h @ t)"
  by (simp add: py_in_sublist sublist_def) (metis append.assoc)

lemma py_in_self [pystr]: "py_in s s"
  by (simp add: py_in_sublist)

text \<open>The facts \<open>simp\<close> needs to evaluate the string primitives on literals.\<close>

lemmas str_eval = py_lower_def py_lower_char_def utf8_def utf8_char_def char_of_def bit_Suc_0_iff

lemma py_replace_empty_old: "py_replace [] new s = s"
  by (induction s) auto

lemma py_replace_no_occ: "\<not> py_in old s \<Longrightarrow> py_replace old new s = s"
  by (induction s) auto

lemma py_replace_prefix: "old \<noteq> [] \<Longrightarrow> py_replace old new (old @ s) = new @ py_replace old new s"
  by (cases old) auto

lemma py_join_append_sep:
  "xs \<noteq> [] \<Longrightarrow> py_join sep (xs @ [y]) = py_join sep xs @ sep @ y"
  by (induction sep xs rule: py_join.induct) auto

lemma py_join_in [pystr]: "x \<in> set xs \<Longrightarrow> py_in x (py_join sep xs)"
  by (induction sep xs rule: py_join.induct)
    (auto simp: py_in_self intro: py_in_append_left py_in_append_right)

section \<open>Lemmas on lists\<close>

lemma find_append_skip [simp]:
  "\<forall>x \<in> set xs. \<not> P x \<Longrightarrow> find P (xs @ ys) = find P ys"
  by (induction xs) auto

lemma takeWhile_append_all:
  "\<forall>x \<in> set xs. P x \<Longrightarrow> \<not> P y \<Longrightarrow> takeWhile P (xs @ y # ys) = xs"
  by (simp add: takeWhile_tail)

end
