(* ===== verification/Collector.thy ===== *)
theory Collector
  imports Prelude
begin

text \<open>
  The Collector: \<open>NewsCollector.fetch_news\<close> of \<open>src/news_collector.py\<close> (lines 27--55).
  The network fetch \<open>feedparser.parse(url)\<close> is the parameter \<open>parse\<close>: for each
  url it raises (\<open>Inl\<close> with the message) or returns a parsed feed. A feed entry keeps
  the attributes the loop reads; an attribute that is missing is \<open>None\<close>, and reading a
  missing \<open>title\<close> or \<open>link\<close> raises \<open>AttributeError\<close>, which the \<open>except\<close> of
  the url loop catches. The printed log line is returned as a list of (url, error) pairs.
  The clock \<open>datetime.datetime.now()\<close> is read once and passed in as \<open>now\<close>.
\<close>

section \<open>Data\<close>

text \<open>
  A feedparser entry. \<open>published_parsed\<close> and \<open>updated_parsed\<close> hold the value of
  \<open>time.mktime\<close> of the parsed struct (seconds), or \<open>None\<close> where the attribute is
  missing or \<open>None\<close>.
\<close>

record entry =
  entry_title :: "string option"
  entry_link :: "string option"
  entry_summary :: "string option"
  published_parsed :: "int option"
  updated_parsed :: "int option"

record feed =
  feed_title :: "string option"
  entries :: "entry list"

text \<open>
  A collected item, the dict built at lines 45--51. \<open>published\<close> keeps the moment the
  code renders with \<open>strftime\<close>.
\<close>

record news_item =
  title :: string
  link :: string
  summary :: string
  source :: string
  published :: timestamp

datatype fetch_error = ParseError string | AttributeError string

type_synonym parser = "url \<Rightarrow> string + feed"

section \<open>Operations\<close>

text \<open>\<open>datetime.fromtimestamp\<close> of a count of seconds, in microseconds.\<close>

definition from_timestamp :: "int \<Rightarrow> timestamp" where
  "from_timestamp s = s * 1000000"

text \<open>\<open>datetime.timedelta(hours=72)\<close>, in microseconds.\<close>

definition threshold :: int where
  "threshold = 72 * 3600 * 1000000"

text \<open>Lines 37--41: \<open>published\<close> is preferred over \<open>updated\<close>.\<close>

definition resolve_time :: "entry \<Rightarrow> timestamp option" where
  "resolve_time e =
     (case published_parsed e of
        Some s \<Rightarrow> Some (from_timestamp s)
      | None \<Rightarrow> (case updated_parsed e of Some s \<Rightarrow> Some (from_timestamp s) | None \<Rightarrow> None))"

text \<open>\<open>feed.feed.get("title", "Unknown Source")\<close>.\<close>

definition feed_source :: "feed \<Rightarrow> string" where
  "feed_source f = (case feed_title f of None \<Rightarrow> ''Unknown Source'' | Some t \<Rightarrow> t)"

text \<open>
  One iteration of the entry loop (lines 37--51): \<open>Inr None\<close> when the entry is
  skipped, \<open>Inr (Some item)\<close> when it is appended, \<open>Inl\<close> when building the dict
  raises. The dict reads \<open>entry.title\<close> first, then \<open>entry.link\<close>.
\<close>

definition process_entry :: "timestamp \<Rightarrow> string \<Rightarrow> entry \<Rightarrow> fetch_error + news_item option" where
  "process_entry now src e =
     (case resolve_time e of
        None \<Rightarrow> Inr None
      | Some t \<Rightarrow>
          if now - t \<le> threshold then
            (case entry_title e of
               None \<Rightarrow> Inl (AttributeError ''title'')
             | Some ti \<Rightarrow>
                 (case entry_link e of
                    None \<Rightarrow> Inl (AttributeError ''link'')
                  | Some li \<Rightarrow>
                      Inr (Some \<lparr>title = ti, link = li,
                                 summary = (case entry_summary e of None \<Rightarrow> '''' | Some s \<Rightarrow> s),
                                 source = src, published = t\<rparr>)))
          else Inr None)"

text \<open>
  The loop over \<open>feed.entries\<close> (line 36), appending to \<open>all_news\<close> in place: the
  items appended before an exception stay in \<open>all_news\<close>.
\<close>

fun process_entries :: "timestamp \<Rightarrow> string \<Rightarrow> news_item list \<Rightarrow> entry list \<Rightarrow>
    news_item list \<times> fetch_error option" where
  "process_entries now src acc [] = (acc, None)"
| "process_entries now src acc (e # es) =
     (case process_entry now src e of
        Inl err \<Rightarrow> (acc, Some err)
      | Inr None \<Rightarrow> process_entries now src acc es
      | Inr (Some it) \<Rightarrow> process_entries now src (acc @ [it]) es)"

text \<open>The loop over \<open>rss_urls\<close> (lines 33--53) with its \<open>try\<close>/\<open>except\<close>.\<close>

fun fetch_loop :: "parser \<Rightarrow> timestamp \<Rightarrow> news_item list \<Rightarrow> (url \<times> fetch_error) list \<Rightarrow>
    url list \<Rightarrow> news_item list \<times> (url \<times> fetch_error) list" where
  "fetch_loop parse now acc log [] = (acc, log)"
| "fetch_loop parse now acc log (u # us) =
     (case parse u of
        Inl msg \<Rightarrow> fetch_loop parse now acc (log @ [(u, ParseError msg)]) us
      | Inr f \<Rightarrow>
          (case process_entries now (feed_source f) acc (entries f) of
             (acc', None) \<Rightarrow> fetch_loop parse now acc' log us
           | (acc', Some err) \<Rightarrow> fetch_loop parse now acc' (log @ [(u, err)]) us))"

definition fetch_news :: "parser \<Rightarrow> timestamp \<Rightarrow> url list \<Rightarrow>
    news_item list \<times> (url \<times> fetch_error) list" where
  "fetch_news parse now rss_urls = fetch_loop parse now [] [] rss_urls"

section \<open>Abstract specification of the collector\<close>

text \<open>
  What the collector promises per entry and per source, stated without the loops: an
  entry is \<open>recent\<close> when it has a timestamp within the window; it is \<open>faulty\<close> when
  it is recent but lacks a title or a link. A source contributes the recent entries
  before its first faulty one, as items.
\<close>

definition recent :: "timestamp \<Rightarrow> entry \<Rightarrow> bool" where
  "recent now e = (case resolve_time e of None \<Rightarrow> False | Some t \<Rightarrow> now - t \<le> threshold)"

definition faulty :: "timestamp \<Rightarrow> entry \<Rightarrow> bool" where
  "faulty now e = (recent now e \<and> (entry_title e = None \<or> entry_link e = None))"

text \<open>The attribute whose read raises on a faulty entry: \<open>title\<close> is read first.\<close>

definition missing_attr :: "entry \<Rightarrow> fetch_error" where
  "missing_attr e =
     (if entry_title e = None then AttributeError ''title'' else AttributeError ''link'')"

definition mk_item :: "string \<Rightarrow> entry \<Rightarrow> news_item" where
  "mk_item src e =
     \<lparr>title = the (entry_title e), link = the (entry_link e),
      summary = (case entry_summary e of None \<Rightarrow> '''' | Some s \<Rightarrow> s),
      source = src, published = the (resolve_time e)\<rparr>"

definition feed_items :: "timestamp \<Rightarrow> feed \<Rightarrow> news_item list" where
  "feed_items now f =
     map (mk_item (feed_source f))
       (filter (recent now) (takeWhile (\<lambda>e. \<not> faulty now e) (entries f)))"

definition source_items :: "parser \<Rightarrow> timestamp \<Rightarrow> url \<Rightarrow> news_item list" where
  "source_items parse now u = (case parse u of Inl _ \<Rightarrow> [] | Inr f \<Rightarrow> feed_items now f)"

text \<open>The log line of a source, if it has one.\<close>

definition source_error :: "parser \<Rightarrow> timestamp \<Rightarrow> url \<Rightarrow> (url \<times> fetch_error) option" where
  "source_error parse now u =
     (case parse u of
        Inl msg \<Rightarrow> Some (u, ParseError msg)
      | Inr f \<Rightarrow> map_option (\<lambda>e. (u, missing_attr e)) (find (faulty now) (entries f)))"

section \<open>The loops implement the specification\<close>

lemma process_entry_spec:
  "process_entry now src e =
     (if recent now e then
        (if faulty now e then Inl (missing_attr e) else Inr (Some (mk_item src e)))
      else Inr None)"
  by (auto simp: process_entry_def recent_def faulty_def missing_attr_def mk_item_def
      split: option.splits)

lemma process_entries_spec:
  "process_entries now src acc es =
     (acc @ map (mk_item src) (filter (recent now) (takeWhile (\<lambda>e. \<not> faulty now e) es)),
      map_option missing_attr (find (faulty now) es))"
proof (induction es arbitrary: acc)
  case Nil
  then show ?case by simp
next
  case (Cons e es)
  then show ?case
    by (simp add: process_entry_spec) (auto simp: faulty_def)
qed

lemma fetch_loop_spec:
  "fetch_loop parse now acc log us =
     (acc @ concat (map (source_items parse now) us),
      log @ List.map_filter (source_error parse now) us)"
proof (induction us arbitrary: acc log)
  case Nil
  then show ?case by (simp add: List.map_filter_def)
next
  case (Cons u us)
  then show ?case
    by (auto simp: process_entries_spec source_items_def feed_items_def source_error_def
        List.map_filter_def split: sum.splits option.splits)
qed

lemma fetch_news_Cons_items:
  "fst (fetch_news parse now (u # us)) = source_items parse now u @ fst (fetch_news parse now us)"
  by (simp add: fetch_news_def fetch_loop_spec)

lemma source_items_window:
  assumes "it \<in> set (source_items parse now u)"
  shows "\<exists>f e. parse u = Inr f \<and> e \<in> set (entries f) \<and>
    resolve_time e = Some (published it) \<and> now - published it \<le> threshold"
proof -
  from assms obtain f where f: "parse u = Inr f" and "it \<in> set (feed_items now f)"
    by (cases "parse u") (auto simp: source_items_def)
  then obtain e where "e \<in> set (entries f)" "recent now e" "it = mk_item (feed_source f) e"
    by (auto simp: feed_items_def dest: set_takeWhileD)
  with f show ?thesis
    by (auto simp: recent_def mk_item_def split: option.splits)
qed

lemmas collector_eval = fetch_news_def process_entry_def resolve_time_def from_timestamp_def
  threshold_def feed_source_def

section \<open>Properties of the collector\<close>

text \<open>
  C6. Refinement: \<open>fetch_news\<close> returns, in the order of the url list, the items of
  each source as the specification \<open>source_items\<close> describes them (the recent entries
  before the first faulty one, in feed order; nothing for a source whose parse raised),
  and logs exactly the sources that raised.
\<close>

theorem fetch_news_refines:
  "fetch_news parse now rss_urls =
     (concat (map (source_items parse now) rss_urls),
      List.map_filter (source_error parse now) rss_urls)"
  by (simp add: fetch_news_def fetch_loop_spec)

text \<open>
  C7. Recency window: every collected item comes from an entry of a listed feed that was
  parsed, its timestamp is that entry's resolved timestamp (so entries without one never
  appear), and it lies within 72 hours before the single \<open>now\<close> of the run.
\<close>

theorem fetch_news_window:
  assumes "it \<in> set (fst (fetch_news parse now rss_urls))"
  shows "now - published it \<le> threshold \<and>
    (\<exists>u f e. u \<in> set rss_urls \<and> parse u = Inr f \<and> e \<in> set (entries f) \<and>
       resolve_time e = Some (published it))"
proof -
  from assms obtain u where u: "u \<in> set rss_urls" and it: "it \<in> set (source_items parse now u)"
    by (auto simp: fetch_news_def fetch_loop_spec)
  from source_items_window [OF it] u show ?thesis by blast
qed

text \<open>
  C8. Per-source isolation: collecting a concatenation of url lists gives the
  concatenation of the results, items and log alike; no source affects the items or the
  order of another.
\<close>

theorem fetch_news_append:
  "fetch_news parse now (xs @ ys) =
     (fst (fetch_news parse now xs) @ fst (fetch_news parse now ys),
      snd (fetch_news parse now xs) @ snd (fetch_news parse now ys))"
  by (simp add: fetch_news_def fetch_loop_spec List.map_filter_def)

text \<open>
  C9. A source whose parse raises is logged with its error and contributes nothing:
  the items are those of the same run without it.
\<close>

theorem fetch_news_skip_failed:
  assumes "parse u = Inl msg"
  shows "fst (fetch_news parse now (xs @ u # ys)) = fst (fetch_news parse now (xs @ ys)) \<and>
    (u, ParseError msg) \<in> set (snd (fetch_news parse now (xs @ u # ys)))"
  using assms
  by (simp add: fetch_news_def fetch_loop_spec source_items_def source_error_def List.map_filter_def)

text \<open>
  C13. An entry within the window that lacks a title or a link ends its feed: the
  exception leaves the loop over the entries, so the feed keeps the items of the entries
  before it and loses every later entry, which the spec's per-source isolation does not
  describe.
\<close>

theorem fetch_news_partial_feed:
  assumes "parse u = Inr f" and "entries f = pre @ e # post"
    and "faulty now e" and "\<forall>x \<in> set pre. \<not> faulty now x"
  shows "fetch_news parse now [u] =
    (map (mk_item (feed_source f)) (filter (recent now) pre), [(u, missing_attr e)])"
  using assms
  by (simp add: fetch_news_def fetch_loop_spec source_items_def feed_items_def source_error_def
      List.map_filter_def takeWhile_append_all)

section \<open>Witnesses\<close>

text \<open>
  A run over two sources: \<open>a\<close> parses to a feed with one entry published 100 seconds
  after the epoch, \<open>b\<close> raises; the clock reads 200 seconds.
\<close>

theorem fetch_news_window_witness:
  "\<lparr>title = ''x'', link = ''l'', summary = '''', source = ''T'', published = 100000000\<rparr>
     \<in> set (fst (fetch_news
          (\<lambda>u. if u = ''a'' then Inr \<lparr>feed_title = Some ''T'', entries =
                 [\<lparr>entry_title = Some ''x'', entry_link = Some ''l'', entry_summary = None,
                   published_parsed = Some 100, updated_parsed = None\<rparr>]\<rparr>
               else Inl ''boom'') 200000000 [''a'', ''b''])) \<and>
   200000000 - 100000000 \<le> threshold"
proof -
  let ?p = "\<lambda>u. if u = ''a'' then Inr \<lparr>feed_title = Some ''T'', entries =
                 [\<lparr>entry_title = Some ''x'', entry_link = Some ''l'', entry_summary = None,
                   published_parsed = Some 100, updated_parsed = None\<rparr>]\<rparr>
               else Inl ''boom''"
  let ?it = "\<lparr>title = ''x'', link = ''l'', summary = '''', source = ''T'', published = 100000000\<rparr>"
  have h: "?it \<in> set (fst (fetch_news ?p 200000000 [''a'', ''b'']))"
    by (simp add: collector_eval)
  from fetch_news_window [OF h] h show ?thesis by simp
qed

theorem fetch_news_skip_failed_witness:
  "(\<lambda>u. if u = ''a'' then Inr \<lparr>feed_title = None, entries = []\<rparr> else Inl ''boom'') ''b'' = Inl ''boom'' \<and>
   fst (fetch_news (\<lambda>u. if u = ''a'' then Inr \<lparr>feed_title = None, entries = []\<rparr> else Inl ''boom'')
      0 ([''a''] @ ''b'' # [])) =
   fst (fetch_news (\<lambda>u. if u = ''a'' then Inr \<lparr>feed_title = None, entries = []\<rparr> else Inl ''boom'')
      0 ([''a''] @ [])) \<and>
   (''b'', ParseError ''boom'') \<in> set (snd (fetch_news
      (\<lambda>u. if u = ''a'' then Inr \<lparr>feed_title = None, entries = []\<rparr> else Inl ''boom'')
      0 ([''a''] @ ''b'' # [])))"
  using fetch_news_skip_failed [of "\<lambda>u. if u = ''a'' then Inr \<lparr>feed_title = None, entries = []\<rparr>
      else Inl ''boom''" "''b''" "''boom''" 0 "[''a'']" "[]"]
  by simp

text \<open>
  A feed whose second entry, within the window, has no title: the third entry, also
  within the window, is lost.
\<close>

theorem fetch_news_partial_feed_witness:
  "fetch_news (\<lambda>u. Inr \<lparr>feed_title = None, entries =
      [\<lparr>entry_title = Some ''x'', entry_link = Some ''l'', entry_summary = None,
         published_parsed = Some 100, updated_parsed = None\<rparr>] @
      \<lparr>entry_title = None, entry_link = Some ''m'', entry_summary = None,
         published_parsed = None, updated_parsed = Some 150\<rparr> #
      [\<lparr>entry_title = Some ''z'', entry_link = Some ''n'', entry_summary = None,
         published_parsed = Some 160, updated_parsed = None\<rparr>]\<rparr>) 200000000 [''a''] =
   ([\<lparr>title = ''x'', link = ''l'', summary = '''', source = ''Unknown Source'',
      published = 100000000\<rparr>], [(''a'', AttributeError ''title'')])"
proof -
  let ?e1 = "\<lparr>entry_title = Some ''x'', entry_link = Some ''l'', entry_summary = None,
         published_parsed = Some 100, updated_parsed = None\<rparr>"
  let ?e2 = "\<lparr>entry_title = None, entry_link = Some ''m'', entry_summary = None,
         published_parsed = None, updated_parsed = Some 150\<rparr>"
  let ?e3 = "\<lparr>entry_title = Some ''z'', entry_link = Some ''n'', entry_summary = None,
         published_parsed = Some 160, updated_parsed = None\<rparr>"
  let ?f = "\<lparr>feed_title = None, entries = [?e1] @ ?e2 # [?e3]\<rparr>"
  have r: "recent 200000000 ?e1" "faulty 200000000 ?e2" "\<not> faulty 200000000 ?e1"
    by (simp_all add: faulty_def recent_def resolve_time_def from_timestamp_def threshold_def)
  have "fetch_news (\<lambda>u. Inr ?f) 200000000 [''a''] =
    (map (mk_item (feed_source ?f)) (filter (recent 200000000) [?e1]), [(''a'', missing_attr ?e2)])"
    by (rule fetch_news_partial_feed) (use r in simp_all)
  then show ?thesis
    using r by (simp add: mk_item_def missing_attr_def feed_source_def resolve_time_def
        from_timestamp_def)
qed

end
