(* ===== verification/Reporter.thy ===== *)
theory Reporter
  imports Collector
begin

text \<open>
  The Reporter: the constructor and \<open>NewsCollector.generate_report\<close> of
  \<open>src/news_collector.py\<close> (lines 10--25 and 57--119). The Gemini client is a record
  of its two calls, each threading an opaque world \<open>'w\<close> (quota counters, models coming
  and going), so the backend may answer the same identifier differently over time:
  \<open>models_list\<close> is \<open>client.models.list()\<close>, raising or returning the model
  descriptions, and \<open>generate_content\<close> is
  \<open>client.models.generate_content(model=..., contents=...)\<close>, returning the response's
  \<open>text\<close> (possibly \<open>None\<close>) or raising an exception, given by \<open>str(e)\<close>. The
  identifiers passed to \<open>generate_content\<close> are recorded, in order, in \<open>calls\<close>.
\<close>

section \<open>Data\<close>

datatype outcome = Response "string option" | Raised string

record model_info =
  name :: string
  supported_generation_methods :: "string list option"

record 'w client =
  models_list :: "'w \<Rightarrow> (string + model_info list) \<times> 'w"
  generate_content :: "'w \<Rightarrow> model_id \<Rightarrow> string \<Rightarrow> outcome \<times> 'w"

record news_collector =
  api_key :: string
  candidate_models :: "model_id list"

text \<open>The state of the fallback loop: the world, \<open>last_error\<close>, and the calls made.\<close>

record 'w gen_state =
  world :: 'w
  last_error :: "string option"
  calls :: "model_id list"

section \<open>Construction\<close>

text \<open>The priority list of lines 17--25.\<close>

definition default_candidates :: "model_id list" where
  "default_candidates =
     [''gemini-2.5-flash'', ''gemini-2.5-pro'', ''gemini-2.0-flash-lite-preview-02-05'',
      ''gemini-2.0-flash-lite'', ''gemini-2.0-flash-lite-001'', ''gemini-2.0-flash'',
      ''gemini-2.0-flash-exp'']"

text \<open>
  Lines 11--15: the key comes from the secrets when they hold it, else from the
  environment; a missing or empty key raises \<open>ValueError\<close>.
\<close>

definition init_collector :: "(string \<rightharpoonup> string) \<Rightarrow> (string \<rightharpoonup> string) \<Rightarrow> string + news_collector" where
  "init_collector secrets env =
     (let key = (case secrets ''GEMINI_API_KEY'' of Some k \<Rightarrow> Some k | None \<Rightarrow> env ''GEMINI_API_KEY'')
      in case key of
           None \<Rightarrow> Inl ''GEMINI_API_KEY must be set.''
         | Some k \<Rightarrow>
             if k = [] then Inl ''GEMINI_API_KEY must be set.''
             else Inr \<lparr>api_key = k, candidate_models = default_candidates\<rparr>)"

section \<open>Texts\<close>

text \<open>Line 60: "No new news was published within the last 3 days."\<close>

definition no_news_msg :: string where
  "no_news_msg =
     utf8 [0xCD5C, 0xADFC] @ '' 3'' @ utf8 [0xC77C] @ '' '' @ utf8 [0xC774, 0xB0B4, 0xC5D0] @
     '' '' @ utf8 [0xBC1C, 0xD589, 0xB41C] @ '' '' @ utf8 [0xC0C8, 0xB85C, 0xC6B4] @ '' '' @
     utf8 [0xB274, 0xC2A4, 0xAC00] @ '' '' @ utf8 [0xC5C6, 0xC2B5, 0xB2C8, 0xB2E4] @ ''.''"

text \<open>Line 64: the block of one item, with the labels "title", "link", "summary".\<close>

definition item_block :: "news_item \<Rightarrow> string" where
  "item_block it =
     utf8 [0xC81C, 0xBAA9] @ '': '' @ title it @ ''\<newline>'' @
     utf8 [0xB9C1, 0xD06C] @ '': '' @ link it @ ''\<newline>'' @
     utf8 [0xC694, 0xC57D] @ '': '' @ summary it @ ''\<newline>---\<newline>''"

text \<open>Lines 62--64.\<close>

definition news_context :: "news_item list \<Rightarrow> string" where
  "news_context items = concat (map item_block items)"

text \<open>
  Lines 66--79: the instruction template (role: IT journalist; task: one summary report;
  format: 3--5 topic groups, one bulleted title-link-summary line per item, closing
  takeaways; keep every link; write in Korean) around the item blocks.
\<close>

definition prompt_head :: string where
  "prompt_head =
     ''\<newline>Role: '' @ utf8 [0xC804, 0xBB38] @ '' IT '' @ utf8 [0xD14C, 0xD06C] @ '' '' @
     utf8 [0xC800, 0xB110, 0xB9AC, 0xC2A4, 0xD2B8] @ ''\<newline>Task: '' @
     utf8 [0xC218, 0xC9D1, 0xB41C] @ '' '' @ utf8 [0xB274, 0xC2A4] @ '' '' @
     utf8 [0xAE30, 0xC0AC, 0xB4E4, 0xC744] @ '' '' @ utf8 [0xBD84, 0xC11D, 0xD558, 0xC5EC] @
     '' '' @ utf8 [0xD55C] @ '' '' @ utf8 [0xC7A5, 0xC758] @ '' '' @ utf8 [0xC694, 0xC57D] @
     '' '' @ utf8 [0xBCF4, 0xACE0, 0xC11C] @ '' '' @ utf8 [0xC791, 0xC131] @
     ''\<newline>\<newline>'' @ utf8 [0xC218, 0xC9D1, 0xB41C] @ '' '' @ utf8 [0xB274, 0xC2A4] @ '' '' @
     utf8 [0xB370, 0xC774, 0xD130] @ '':\<newline>''"

definition prompt_tail :: string where
  "prompt_tail =
     ''\<newline>\<newline>Format: \<newline>1. ## ['' @ utf8 [0xD1A0, 0xD53D, 0xBA85] @ ''] '' @
     utf8 [0xD615, 0xD0DC, 0xB85C] @ '' '' @ utf8 [0xB300, 0xBD84, 0xB958] @ '' (3~5'' @
     utf8 [0xAC1C] @ '' '' @ utf8 [0xD575, 0xC2EC] @ '' '' @ utf8 [0xD1A0, 0xD53D, 0xC73C, 0xB85C] @
     '' '' @ utf8 [0xADF8, 0xB8F9, 0xD654] @ '')\<newline>2. - ['' @ utf8 [0xB274, 0xC2A4] @ '' '' @
     utf8 [0xC81C, 0xBAA9] @ '']('' @ utf8 [0xB9C1, 0xD06C] @ '') : '' @ utf8 [0xD55C] @ '' '' @
     utf8 [0xC904] @ '' '' @ utf8 [0xD575, 0xC2EC] @ '' '' @ utf8 [0xC694, 0xC57D] @
     ''\<newline>3. '' @ utf8 [0xC624, 0xB298] @ '' IT '' @ utf8 [0xC5C5, 0xACC4, 0xC758] @ '' '' @
     utf8 [0xC8FC, 0xC694] @ '' '' @ utf8 [0xC2DC, 0xC0AC, 0xC810] @ '' '' @ utf8 [0xC694, 0xC57D] @
     ''\<newline>\<newline>'' @ utf8 [0xC911, 0xC694] @ '': '' @ utf8 [0xAC01] @ '' '' @
     utf8 [0xB274, 0xC2A4] @ '' '' @ utf8 [0xD558, 0xB2E8, 0xC5D0] @ '' '' @ utf8 [0xC6D0, 0xBB38] @
     '' '' @ utf8 [0xD53C, 0xB4DC] @ '' ['' @ utf8 [0xB9C1, 0xD06C] @ '']'' @ utf8 [0xB97C] @ '' '' @
     utf8 [0xBC18, 0xB4DC, 0xC2DC] @ '' '' @ utf8 [0xD3EC, 0xD568, 0xD558, 0xC138, 0xC694] @ ''. '' @
     utf8 [0xD55C, 0xAD6D, 0xC5B4, 0xB85C] @ '' '' @ utf8 [0xC791, 0xC131, 0xD558, 0xC138, 0xC694] @
     ''.\<newline>''"

definition build_prompt :: "news_item list \<Rightarrow> string" where
  "build_prompt items = prompt_head @ news_context items @ prompt_tail"

text \<open>Line 114: "Fatal error during AI analysis (id): e".\<close>

definition fatal_msg :: "model_id \<Rightarrow> string \<Rightarrow> string" where
  "fatal_msg actual_id e =
     ''AI '' @ utf8 [0xBD84, 0xC11D] @ '' '' @ utf8 [0xC911] @ '' '' @
     utf8 [0xCE58, 0xBA85, 0xC801] @ '' '' @ utf8 [0xC624, 0xB958] @ '' '' @
     utf8 [0xBC1C, 0xC0DD] @ '' ('' @ actual_id @ ''): '' @ e"

text \<open>
  Lines 116--119: "Every AI model call failed. / Last error: ", the error, then "The
  contracted quota may be 0 or the API key may still be activating. / Models tried: " and
  the first 15 identifiers of the roster.
\<close>

definition exhausted_head :: string where
  "exhausted_head =
     utf8 [0xBAA8, 0xB4E0] @ '' AI '' @ utf8 [0xBAA8, 0xB378] @ '' '' @
     utf8 [0xD638, 0xCD9C, 0xC5D0] @ '' '' @ utf8 [0xC2E4, 0xD328, 0xD588, 0xC2B5, 0xB2C8, 0xB2E4] @
     ''.\<newline>'' @
     utf8 [0xB9C8, 0xC9C0, 0xB9C9] @ '' '' @ utf8 [0xC624, 0xB958] @ '': ''"

definition exhausted_hint :: string where
  "exhausted_hint =
     ''\<newline>\<newline>'' @
     utf8 [0xACC4, 0xC57D, 0xB41C] @ '' '' @ utf8 [0xD560, 0xB2F9, 0xB7C9] @ ''(Quota)'' @
     utf8 [0xC774] @ '' 0'' @ utf8 [0xC774, 0xAC70, 0xB098] @ '' API '' @ utf8 [0xD0A4, 0xAC00] @
     '' '' @ utf8 [0xD65C, 0xC131, 0xD654, 0xB418, 0xB294] @ '' '' @ utf8 [0xC911, 0xC77C] @ '' '' @
     utf8 [0xC218] @ '' '' @ utf8 [0xC788, 0xC2B5, 0xB2C8, 0xB2E4] @ ''.\<newline>'' @
     utf8 [0xC2DC, 0xB3C4, 0xD55C] @ '' '' @ utf8 [0xBAA8, 0xB378] @ '' '' @ utf8 [0xBAA9, 0xB85D] @
     '': ''"

definition exhausted_msg :: "string option \<Rightarrow> model_id list \<Rightarrow> string" where
  "exhausted_msg last_err trial =
     exhausted_head @ py_str_opt last_err @ exhausted_hint @ py_join '', '' (take 15 trial)"

section \<open>Model discovery and the roster\<close>

text \<open>
  The filter of line 84 for one model: \<open>'generateContent' in m.supported_generation_methods
  or not m.supported_generation_methods\<close>. The membership test comes first and raises
  \<open>TypeError\<close> when the attribute is \<open>None\<close>.
\<close>

definition keep_model :: "model_info \<Rightarrow> string + bool" where
  "keep_model m =
     (case supported_generation_methods m of
        None \<Rightarrow> Inl ''TypeError''
      | Some ms \<Rightarrow> Inr (''generateContent'' \<in> set ms \<or> ms = []))"

text \<open>The list comprehension of line 84: the first exception aborts it.\<close>

fun select_models :: "model_info list \<Rightarrow> string + string list" where
  "select_models [] = Inr []"
| "select_models (m # ms) =
     (case keep_model m of
        Inl e \<Rightarrow> Inl e
      | Inr keep \<Rightarrow>
          (case select_models ms of
             Inl e \<Rightarrow> Inl e
           | Inr names \<Rightarrow> Inr (if keep then name m # names else names)))"

text \<open>Lines 81--86: any exception of the listing or of the filter leaves the list empty.\<close>

definition discover :: "'w client \<Rightarrow> 'w \<Rightarrow> string list \<times> 'w" where
  "discover c w =
     (case models_list c w of
        (Inl _, w') \<Rightarrow> ([], w')
      | (Inr ms, w') \<Rightarrow> (case select_models ms of Inl _ \<Rightarrow> [] | Inr names \<Rightarrow> names, w'))"

text \<open>Lines 89--93: discovered names, stripped of \<open>models/\<close>, appended when new.\<close>

fun merge_models :: "model_id list \<Rightarrow> string list \<Rightarrow> model_id list" where
  "merge_models trial [] = trial"
| "merge_models trial (am # ams) =
     (let clean_name = py_replace ''models/'' '''' am
      in merge_models (if clean_name \<notin> set trial then trial @ [clean_name] else trial) ams)"

section \<open>The fallback loop\<close>

text \<open>Line 98: the bare identifier, then the prefixed one.\<close>

definition actual_ids :: "model_id \<Rightarrow> model_id list" where
  "actual_ids model_id = [model_id, ''models/'' @ model_id]"

text \<open>Lines 108--110.\<close>

definition is_retryable :: "string \<Rightarrow> bool" where
  "is_retryable e =
     (let err_msg = py_lower e
      in py_in ''404'' err_msg \<or> py_in ''429'' err_msg \<or> py_in ''quota'' err_msg)"

text \<open>
  The inner loop over the two identifiers (lines 98--114). \<open>Some r\<close> is a \<open>return r\<close>
  of \<open>generate_report\<close>; \<open>None\<close> falls through to the next identifier. An empty or
  \<open>None\<close> text falls through without touching \<open>last_error\<close>.
\<close>

fun try_ids :: "'w client \<Rightarrow> string \<Rightarrow> 'w gen_state \<Rightarrow> model_id list \<Rightarrow>
    string option \<times> 'w gen_state" where
  "try_ids c prompt st [] = (None, st)"
| "try_ids c prompt st (actual_id # rest) =
     (case generate_content c (world st) actual_id prompt of
        (out, w') \<Rightarrow>
          (let st' = st\<lparr>world := w', calls := calls st @ [actual_id]\<rparr>
           in (case out of
                 Response None \<Rightarrow> try_ids c prompt st' rest
               | Response (Some txt) \<Rightarrow>
                   if txt \<noteq> [] then (Some txt, st') else try_ids c prompt st' rest
               | Raised e \<Rightarrow>
                   if is_retryable e then try_ids c prompt (st'\<lparr>last_error := Some e\<rparr>) rest
                   else (Some (fatal_msg actual_id e), st'\<lparr>last_error := Some e\<rparr>))))"

text \<open>The outer loop over the roster (lines 96--114).\<close>

fun try_models :: "'w client \<Rightarrow> string \<Rightarrow> 'w gen_state \<Rightarrow> model_id list \<Rightarrow>
    string option \<times> 'w gen_state" where
  "try_models c prompt st [] = (None, st)"
| "try_models c prompt st (model_id # ms) =
     (case try_ids c prompt st (actual_ids model_id) of
        (Some r, st') \<Rightarrow> (Some r, st')
      | (None, st') \<Rightarrow> try_models c prompt st' ms)"

text \<open>
  \<open>generate_report\<close> (lines 57--119). It returns the report and the final loop state,
  whose \<open>calls\<close> are the identifiers sent to the backend.
\<close>

definition generate_report :: "news_collector \<Rightarrow> 'w client \<Rightarrow> 'w \<Rightarrow> news_item list \<Rightarrow>
    string \<times> 'w gen_state" where
  "generate_report self c w news_items =
     (if news_items = [] then (no_news_msg, \<lparr>world = w, last_error = None, calls = []\<rparr>)
      else
        let prompt = build_prompt news_items;
            (account_models, w1) = discover c w;
            trial_models = merge_models (candidate_models self) account_models;
            (r, st) = try_models c prompt \<lparr>world = w1, last_error = None, calls = []\<rparr> trial_models
        in (case r of Some txt \<Rightarrow> txt | None \<Rightarrow> exhausted_msg (last_error st) trial_models, st))"

section \<open>Specification of the fallback loop\<close>

text \<open>
  The attempts in the order the code makes them, and the outcomes that end the loop: a
  non-empty text or an error that is not retryable.
\<close>

definition attempt_seq :: "model_id list \<Rightarrow> model_id list" where
  "attempt_seq trial = concat (map actual_ids trial)"

fun decisive :: "outcome \<Rightarrow> bool" where
  "decisive (Response None) = False"
| "decisive (Response (Some txt)) = (txt \<noteq> [])"
| "decisive (Raised e) = (\<not> is_retryable e)"

text \<open>The roster \<open>generate_report\<close> tries, from the world it starts in.\<close>

definition report_trial :: "news_collector \<Rightarrow> 'w client \<Rightarrow> 'w \<Rightarrow> model_id list" where
  "report_trial self c w = merge_models (candidate_models self) (fst (discover c w))"

section \<open>Lemmas on the loop\<close>

lemma try_ids_append:
  "try_ids c prompt st (xs @ ys) =
     (case try_ids c prompt st xs of
        (Some r, st') \<Rightarrow> (Some r, st')
      | (None, st') \<Rightarrow> try_ids c prompt st' ys)"
  by (induction c prompt st xs rule: try_ids.induct)
    (auto simp: Let_def split: prod.splits outcome.splits option.splits)

lemma try_ids_Cons:
  "generate_content c (world st) a prompt = (out, w') \<Longrightarrow>
   try_ids c prompt st (a # rest) =
     (let st' = st\<lparr>world := w', calls := calls st @ [a]\<rparr> in
      if decisive out then
        (case out of Raised e \<Rightarrow> (Some (fatal_msg a e), st'\<lparr>last_error := Some e\<rparr>)
                   | Response t \<Rightarrow> (t, st'))
      else
        (case out of Raised e \<Rightarrow> try_ids c prompt (st'\<lparr>last_error := Some e\<rparr>) rest
                   | Response t \<Rightarrow> try_ids c prompt st' rest))"
  by (cases out) (auto simp: Let_def split: option.splits)

declare try_ids.simps(2) [simp del]

lemma try_ids_calls_prefix:
  "\<exists>k. calls (snd (try_ids c prompt st aids)) = calls st @ take k aids"
proof (induction aids arbitrary: st)
  case Nil
  show ?case by (rule exI [of _ 0]) simp
next
  case (Cons a rest)
  obtain out w' where g: "generate_content c (world st) a prompt = (out, w')"
    by fastforce
  have ih: "\<exists>k. calls (snd (try_ids c prompt s rest)) = calls st @ take k (a # rest)"
    if "calls s = calls st @ [a]" for s
  proof -
    from Cons.IH [of s] that obtain k
      where "calls (snd (try_ids c prompt s rest)) = calls st @ a # take k rest" by auto
    then show ?thesis by (intro exI [of _ "Suc k"]) simp
  qed
  have one: "\<exists>k. [a] = take k (a # rest)"
    by (rule exI [of _ 1]) simp
  show ?case
    unfolding try_ids_Cons [OF g] Let_def
    by (cases out) (auto intro: ih one split: option.splits)
qed

lemma try_ids_skip_all:
  assumes "\<forall>a \<in> set xs. \<forall>w. \<not> decisive (fst (generate_content c w a prompt))"
  shows "\<exists>st'. try_ids c prompt st (xs @ ys) = try_ids c prompt st' ys \<and> calls st' = calls st @ xs"
  using assms
proof (induction xs arbitrary: st)
  case Nil
  show ?case by auto
next
  case (Cons a xs)
  obtain out w' where g: "generate_content c (world st) a prompt = (out, w')"
    by fastforce
  from Cons.prems g have nd: "\<not> decisive out"
    by (metis fst_conv list.set_intros(1))
  then obtain s where s: "try_ids c prompt st (a # xs @ ys) = try_ids c prompt s (xs @ ys)"
    and cs: "calls s = calls st @ [a]"
    by (cases out) (auto simp: try_ids_Cons [OF g] Let_def)
  from Cons.IH [of s] Cons.prems obtain st'
    where "try_ids c prompt s (xs @ ys) = try_ids c prompt st' ys" and "calls st' = calls s @ xs"
    by auto
  with s cs show ?case by auto
qed

lemma try_ids_none_all:
  assumes "\<forall>a \<in> set xs. \<forall>w. \<not> decisive (fst (generate_content c w a prompt))"
  shows "fst (try_ids c prompt st xs) = None \<and> calls (snd (try_ids c prompt st xs)) = calls st @ xs"
  using try_ids_skip_all [OF assms, of st "[]"] by auto

lemma try_ids_raise_last:
  assumes "\<forall>w a. fst (generate_content c w a prompt) = Raised (err a)" and "\<forall>a. is_retryable (err a)"
  shows "last_error (snd (try_ids c prompt st xs)) =
    (if xs = [] then last_error st else Some (err (last xs)))"
proof (induction xs arbitrary: st)
  case Nil
  then show ?case by simp
next
  case (Cons a xs)
  obtain w' where g: "generate_content c (world st) a prompt = (Raised (err a), w')"
    using assms(1) by (metis prod.collapse)
  let ?s = "st\<lparr>world := w', calls := calls st @ [a], last_error := Some (err a)\<rparr>"
  have "try_ids c prompt st (a # xs) = try_ids c prompt ?s xs"
    using assms(2) by (simp add: try_ids_Cons [OF g])
  with Cons.IH [of ?s] show ?case by simp
qed

lemma try_ids_silent_last_error:
  assumes "\<forall>w a. fst (generate_content c w a prompt) \<in> {Response None, Response (Some [])}"
  shows "last_error (snd (try_ids c prompt st xs)) = last_error st"
proof (induction xs arbitrary: st)
  case Nil
  then show ?case by simp
next
  case (Cons a xs)
  obtain out w' where g: "generate_content c (world st) a prompt = (out, w')"
    by fastforce
  from assms g have "out = Response None \<or> out = Response (Some [])"
    by (metis fst_conv insertE singletonD)
  then show ?case
    using Cons.IH by (auto simp: try_ids_Cons [OF g])
qed

lemma attempt_seq_append_Cons:
  "attempt_seq (pre @ m # post) = attempt_seq pre @ m # (''models/'' @ m) # attempt_seq post"
  by (simp add: attempt_seq_def actual_ids_def)

lemma attempt_seq_last:
  "trial \<noteq> [] \<Longrightarrow> last (attempt_seq trial) = ''models/'' @ last trial"
  by (induction trial rule: rev_induct) (simp_all add: attempt_seq_def actual_ids_def)

lemma try_models_flat_lemma:
  "try_models c prompt st trial = try_ids c prompt st (attempt_seq trial)"
  by (induction trial arbitrary: st)
    (auto simp: attempt_seq_def try_ids_append split: prod.splits option.splits)

lemma generate_report_nonempty:
  "news_items \<noteq> [] \<Longrightarrow>
   generate_report self c w news_items =
     (let res = try_ids c (build_prompt news_items)
                  \<lparr>world = snd (discover c w), last_error = None, calls = []\<rparr>
                  (attempt_seq (report_trial self c w))
      in (case fst res of Some txt \<Rightarrow> txt
                        | None \<Rightarrow> exhausted_msg (last_error (snd res)) (report_trial self c w),
          snd res))"
  by (cases "discover c w")
    (auto simp: generate_report_def report_trial_def try_models_flat_lemma Let_def
      split: prod.splits option.splits)

lemma try_models_skip_prefix:
  assumes "\<forall>a \<in> set (attempt_seq pre). \<forall>w. \<not> decisive (fst (generate_content c w a prompt))"
  shows "\<exists>st'. try_models c prompt st (pre @ m # post) =
      try_ids c prompt st' (m # (''models/'' @ m) # attempt_seq post) \<and>
    calls st' = calls st @ attempt_seq pre"
  using try_ids_skip_all [OF assms, of st "m # (''models/'' @ m) # attempt_seq post"]
  by (simp add: try_models_flat_lemma attempt_seq_append_Cons)

lemma merge_models_prefix_set:
  "prefix trial (merge_models trial ams) \<and>
   set (merge_models trial ams) = set trial \<union> set (map (py_replace ''models/'' '''') ams)"
proof (induction ams arbitrary: trial)
  case Nil
  then show ?case by simp
next
  case (Cons am ams)
  then show ?case
    by (auto simp: Let_def intro: prefix_order.trans [OF prefixI])
qed

lemma merge_models_distinct:
  "distinct trial \<Longrightarrow> distinct (merge_models trial ams)"
  by (induction ams arbitrary: trial) (auto simp: Let_def)

lemma select_models_None_method:
  "m \<in> set ms \<Longrightarrow> supported_generation_methods m = None \<Longrightarrow> \<exists>e. select_models ms = Inl e"
  by (induction ms) (auto simp: keep_model_def split: sum.splits option.splits)

lemma exhausted_msg_mentions:
  "py_in e (exhausted_msg (Some e) trial)"
  "m \<in> set (take 15 trial) \<Longrightarrow> py_in m (exhausted_msg l trial)"
  unfolding exhausted_msg_def py_str_opt.simps
   apply (rule py_in_append_right, rule py_in_append_left, rule py_in_self)
  by (rule py_in_append_right, rule py_in_append_right, rule py_in_append_right,
      erule py_join_in)

lemma exhausted_msg_None: "exhausted_msg None trial = exhausted_msg (Some ''None'') trial"
  by (simp add: exhausted_msg_def)

lemma init_collector_Inr:
  "init_collector secrets env = Inr col \<Longrightarrow>
   candidate_models col = default_candidates \<and> api_key col \<noteq> []"
  by (auto simp: init_collector_def Let_def split: option.splits if_splits)

section \<open>Properties of the reporter\<close>

text \<open>
  C1. Fallback order, first success wins: when every attempt of the models before
  \<open>m\<close> in the roster fails retryably or answers with no text (whatever the backend's
  state), and \<open>m\<close> answers a non-empty text, the loop returns that text after calling
  exactly the bare and prefixed identifiers of the earlier models, in roster order, and
  then the bare \<open>m\<close>; the later models and the prefixed \<open>m\<close> are never called.
\<close>

theorem try_models_first_success:
  assumes "\<forall>a \<in> set (attempt_seq pre). \<forall>w. \<not> decisive (fst (generate_content c w a prompt))"
    and "\<forall>w. fst (generate_content c w m prompt) = Response (Some txt)" and "txt \<noteq> []"
  shows "fst (try_models c prompt st (pre @ m # post)) = Some txt \<and>
    calls (snd (try_models c prompt st (pre @ m # post))) = calls st @ attempt_seq pre @ [m]"
proof -
  from try_models_skip_prefix [OF assms(1)] obtain st' where
    eq: "try_models c prompt st (pre @ m # post) =
      try_ids c prompt st' (m # (''models/'' @ m) # attempt_seq post)"
    and cs: "calls st' = calls st @ attempt_seq pre" by blast
  obtain w' where g: "generate_content c (world st') m prompt = (Response (Some txt), w')"
    using assms(2) by (metis prod.collapse)
  show ?thesis
    using assms(3) by (simp add: eq try_ids_Cons [OF g] cs)
qed

text \<open>
  C2. Fatal short-circuit: when the models before \<open>m\<close> fail retryably or silently and
  the bare \<open>m\<close> raises an error that is not retryable, the report is the diagnostic
  naming \<open>m\<close> and the error, and no later identifier is called.
\<close>

theorem try_models_fatal:
  assumes "\<forall>a \<in> set (attempt_seq pre). \<forall>w. \<not> decisive (fst (generate_content c w a prompt))"
    and "\<forall>w. fst (generate_content c w m prompt) = Raised e" and "\<not> is_retryable e"
  shows "fst (try_models c prompt st (pre @ m # post)) = Some (fatal_msg m e) \<and>
    calls (snd (try_models c prompt st (pre @ m # post))) = calls st @ attempt_seq pre @ [m] \<and>
    last_error (snd (try_models c prompt st (pre @ m # post))) = Some e"
proof -
  from try_models_skip_prefix [OF assms(1)] obtain st' where
    eq: "try_models c prompt st (pre @ m # post) =
      try_ids c prompt st' (m # (''models/'' @ m) # attempt_seq post)"
    and cs: "calls st' = calls st @ attempt_seq pre" by blast
  obtain w' where g: "generate_content c (world st') m prompt = (Raised e, w')"
    using assms(2) by (metis prod.collapse)
  show ?thesis
    using assms(3) by (simp add: eq try_ids_Cons [OF g] cs)
qed

text \<open>
  C3. Total exhaustion: when every call raises a retryable error (the error may depend on
  the identifier called), every identifier of the roster is tried in both forms, and the
  report is the exhaustion diagnostic built from the error of the last attempt, the
  \<open>models/\<close> form of the last model of the roster; it contains that error and the first
  15 identifiers of the roster.
\<close>

theorem generate_report_exhausted:
  assumes "news_items \<noteq> []" and "candidate_models self \<noteq> []"
    and "\<forall>w a. fst (generate_content c w a (build_prompt news_items)) = Raised (err a)"
    and "\<forall>a. is_retryable (err a)"
  shows "last_error (snd (generate_report self c w news_items)) =
      Some (err (''models/'' @ last (report_trial self c w))) \<and>
    fst (generate_report self c w news_items) =
      exhausted_msg (Some (err (''models/'' @ last (report_trial self c w)))) (report_trial self c w) \<and>
    calls (snd (generate_report self c w news_items)) = attempt_seq (report_trial self c w) \<and>
    py_in (err (''models/'' @ last (report_trial self c w))) (fst (generate_report self c w news_items)) \<and>
    (\<forall>m \<in> set (take 15 (report_trial self c w)). py_in m (fst (generate_report self c w news_items)))"
proof -
  let ?p = "build_prompt news_items"
  let ?st0 = "\<lparr>world = snd (discover c w), last_error = None, calls = []\<rparr>"
  let ?xs = "attempt_seq (report_trial self c w)"
  have nd: "\<forall>a \<in> set ?xs. \<forall>w. \<not> decisive (fst (generate_content c w a ?p))"
    using assms(3,4) by simp
  have "prefix (candidate_models self) (report_trial self c w)"
    using merge_models_prefix_set [of "candidate_models self" "fst (discover c w)"]
    by (simp add: report_trial_def)
  with assms(2) have ne: "report_trial self c w \<noteq> []" by (auto simp: prefix_def)
  then have "?xs \<noteq> []" by (auto simp: attempt_seq_def actual_ids_def neq_Nil_conv)
  with try_ids_raise_last [OF assms(3,4), of ?st0 ?xs] attempt_seq_last [OF ne]
  have e: "last_error (snd (try_ids c ?p ?st0 ?xs)) = Some (err (''models/'' @ last (report_trial self c w)))"
    by simp
  from try_ids_none_all [OF nd, of ?st0] e assms(1) show ?thesis
    by (auto simp: generate_report_nonempty Let_def intro: exhausted_msg_mentions)
qed

text \<open>
  C5. The roster: from a list of distinct candidates, the merged roster has no
  duplicate, starts with the candidates in their priority order, and holds exactly the
  candidates and the discovered names stripped of \<open>models/\<close>.
\<close>

theorem merge_models_roster:
  assumes "distinct trial"
  shows "distinct (merge_models trial ams) \<and> prefix trial (merge_models trial ams) \<and>
    set (merge_models trial ams) = set trial \<union> set (map (py_replace ''models/'' '''') ams)"
  using assms merge_models_distinct merge_models_prefix_set by blast

text \<open>
  C10. Order and bound of the calls: whatever the backend answers, the identifiers the
  loop sends are a prefix of the roster's attempt sequence (bare, then prefixed, model by
  model), so at most two calls per model.
\<close>

theorem try_models_calls_prefix:
  "\<exists>k. calls (snd (try_models c prompt st trial)) = calls st @ take k (attempt_seq trial) \<and>
     length (calls (snd (try_models c prompt st trial))) \<le> length (calls st) + 2 * length trial"
proof -
  obtain k where k: "calls (snd (try_models c prompt st trial)) = calls st @ take k (attempt_seq trial)"
    using try_ids_calls_prefix by (metis try_models_flat_lemma)
  have "length (attempt_seq trial) = 2 * length trial"
    by (induction trial) (auto simp: attempt_seq_def actual_ids_def)
  with k show ?thesis by auto
qed

text \<open>
  C11. Discovery is best-effort: when \<open>client.models.list()\<close> raises, the roster is the
  static candidate list.
\<close>

theorem discovery_failure_static:
  assumes "models_list c w = (Inl err, w')"
  shows "report_trial self c w = candidate_models self"
  using assms by (simp add: report_trial_def discover_def)

text \<open>
  C12. A listed model whose \<open>supported_generation_methods\<close> is \<open>None\<close> makes the
  filter raise \<open>TypeError\<close>, and the bare \<open>except\<close> then discards every discovered
  model: the roster is the static list although the listing succeeded.
\<close>

theorem discovery_none_methods:
  assumes "models_list c w = (Inr ms, w')" and "m \<in> set ms"
    and "supported_generation_methods m = None"
  shows "report_trial self c w = candidate_models self"
proof -
  from select_models_None_method [OF assms(2,3)] obtain e where "select_models ms = Inl e" ..
  with assms(1) show ?thesis by (simp add: report_trial_def discover_def)
qed

text \<open>
  C14. Silent failure: when every call answers with no text (\<open>None\<close> or empty), no
  error is ever recorded and the exhaustion diagnostic reports the last error as
  \<open>None\<close>.
\<close>

theorem generate_report_silent_none:
  assumes "news_items \<noteq> []"
    and "\<forall>w a. fst (generate_content c w a (build_prompt news_items)) \<in> {Response None, Response (Some [])}"
  shows "fst (generate_report self c w news_items) = exhausted_msg None (report_trial self c w) \<and>
    py_in ''None'' (fst (generate_report self c w news_items))"
proof -
  let ?p = "build_prompt news_items"
  let ?st0 = "\<lparr>world = snd (discover c w), last_error = None, calls = []\<rparr>"
  let ?xs = "attempt_seq (report_trial self c w)"
  have nd: "\<forall>a \<in> set ?xs. \<forall>w. \<not> decisive (fst (generate_content c w a ?p))"
  proof (intro ballI allI)
    fix a w'
    from assms(2) have "fst (generate_content c w' a ?p) \<in> {Response None, Response (Some [])}"
      by blast
    then show "\<not> decisive (fst (generate_content c w' a ?p))" by auto
  qed
  have "py_in ''None'' (exhausted_msg None (report_trial self c w))"
    unfolding exhausted_msg_None by (rule exhausted_msg_mentions(1))
  with try_ids_none_all [OF nd, of ?st0] try_ids_silent_last_error [OF assms(2), of ?st0 ?xs]
    assms(1) show ?thesis
    by (simp add: generate_report_nonempty Let_def)
qed

text \<open>
  C15. Duplicate suppression with or without the namespace: a discovered name that is a
  roster entry, bare or as \<open>models/\<close> followed by the entry, adds nothing when the entry
  itself contains no \<open>models/\<close>.
\<close>

theorem merge_models_prefixed_duplicate:
  assumes "x \<in> set trial" and "\<not> py_in ''models/'' x"
  shows "merge_models trial [x] = trial \<and> merge_models trial [''models/'' @ x] = trial"
  using assms by (simp add: py_replace_no_occ py_replace_prefix)

text \<open>
  C16. Construction: the key is read from the secrets when they hold it, and only then
  from the environment; a missing or empty key is an error, so an empty key in the secrets
  is an error even when the environment holds one. A constructed collector has the
  static priority list.
\<close>

theorem init_collector_key:
  "(\<exists>msg. init_collector secrets env = Inl msg) \<longleftrightarrow>
     (case secrets ''GEMINI_API_KEY'' of
        Some k \<Rightarrow> k = []
      | None \<Rightarrow> env ''GEMINI_API_KEY'' \<in> {None, Some []})"
  by (simp add: init_collector_def split: option.split)

section \<open>Witnesses\<close>

text \<open>
  A backend with a unit world: listing the models raises, \<open>C\<close> answers \<open>ok\<close> and every
  other identifier is rate-limited. Models \<open>A\<close> and \<open>B\<close> come first in the roster.
\<close>

theorem try_models_first_success_witness:
  "fst (try_models
      \<lparr>models_list = \<lambda>w. (Inl ''unavailable'', w),
       generate_content = \<lambda>w a p. (if a = ''C'' then Response (Some ''ok'')
                                   else Raised ''429 Too Many Requests'', w)\<rparr>
      ''p'' \<lparr>world = (), last_error = None, calls = []\<rparr> ([''A'', ''B''] @ ''C'' # [])) = Some ''ok'' \<and>
   calls (snd (try_models
      \<lparr>models_list = \<lambda>w. (Inl ''unavailable'', w),
       generate_content = \<lambda>w a p. (if a = ''C'' then Response (Some ''ok'')
                                   else Raised ''429 Too Many Requests'', w)\<rparr>
      ''p'' \<lparr>world = (), last_error = None, calls = []\<rparr> ([''A'', ''B''] @ ''C'' # []))) =
   [] @ [''A'', ''models/A'', ''B'', ''models/B''] @ [''C'']"
proof -
  have a: "attempt_seq [''A'', ''B''] = [''A'', ''models/A'', ''B'', ''models/B'']"
    by (simp add: attempt_seq_def actual_ids_def)
  have r: "is_retryable ''429 Too Many Requests''"
    by (simp add: is_retryable_def str_eval)
  show ?thesis
    using try_models_first_success [of "[''A'', ''B'']"
        "\<lparr>models_list = \<lambda>w. (Inl ''unavailable'', w),
          generate_content = \<lambda>w a p. (if a = ''C'' then Response (Some ''ok'')
                                      else Raised ''429 Too Many Requests'', w)\<rparr>"
        "''p''" "''C''" "''ok''" "\<lparr>world = (), last_error = None, calls = []\<rparr>" "[]"]
    by (simp add: a r)
qed

theorem try_models_fatal_witness:
  "fst (try_models
      \<lparr>models_list = \<lambda>w. (Inl ''unavailable'', w),
       generate_content = \<lambda>w a p. (Raised ''400 API key not valid'', w)\<rparr>
      ''p'' \<lparr>world = (), last_error = None, calls = []\<rparr> ([] @ ''A'' # [''B''])) =
     Some (fatal_msg ''A'' ''400 API key not valid'') \<and>
   calls (snd (try_models
      \<lparr>models_list = \<lambda>w. (Inl ''unavailable'', w),
       generate_content = \<lambda>w a p. (Raised ''400 API key not valid'', w)\<rparr>
      ''p'' \<lparr>world = (), last_error = None, calls = []\<rparr> ([] @ ''A'' # [''B'']))) =
     [] @ attempt_seq [] @ [''A''] \<and>
   last_error (snd (try_models
      \<lparr>models_list = \<lambda>w. (Inl ''unavailable'', w),
       generate_content = \<lambda>w a p. (Raised ''400 API key not valid'', w)\<rparr>
      ''p'' \<lparr>world = (), last_error = None, calls = []\<rparr> ([] @ ''A'' # [''B'']))) =
     Some ''400 API key not valid''"
proof -
  have r: "\<not> is_retryable ''400 API key not valid''"
    by (simp add: is_retryable_def str_eval)
  show ?thesis
    using try_models_fatal [of "[]"
        "\<lparr>models_list = \<lambda>w. (Inl ''unavailable'', w),
          generate_content = \<lambda>w a p. (Raised ''400 API key not valid'', w)\<rparr>"
        "''p''" "''A''" "''400 API key not valid''" "\<lparr>world = (), last_error = None, calls = []\<rparr>"
        "[''B'']"]
    by (simp add: r attempt_seq_def)
qed

text \<open>
  A single-candidate collector, one item, and a backend whose every call is over quota.
\<close>

theorem generate_report_exhausted_witness:
  "last_error (snd (generate_report \<lparr>api_key = ''k'', candidate_models = [''A'', ''B'']\<rparr>
      \<lparr>models_list = \<lambda>w. (Inl ''unavailable'', w), generate_content = \<lambda>w a p. (Raised (''429 Too Many Requests: '' @ a), w)\<rparr> (0::nat)
      [\<lparr>title = ''t'', link = ''l'', summary = '''', source = ''s'', published = 0\<rparr>])) = Some ''429 Too Many Requests: models/B'' \<and>
   fst (generate_report \<lparr>api_key = ''k'', candidate_models = [''A'', ''B'']\<rparr>
      \<lparr>models_list = \<lambda>w. (Inl ''unavailable'', w), generate_content = \<lambda>w a p. (Raised (''429 Too Many Requests: '' @ a), w)\<rparr> (0::nat)
      [\<lparr>title = ''t'', link = ''l'', summary = '''', source = ''s'', published = 0\<rparr>]) = exhausted_msg (Some ''429 Too Many Requests: models/B'') [''A'', ''B''] \<and>
   calls (snd (generate_report \<lparr>api_key = ''k'', candidate_models = [''A'', ''B'']\<rparr>
      \<lparr>models_list = \<lambda>w. (Inl ''unavailable'', w), generate_content = \<lambda>w a p. (Raised (''429 Too Many Requests: '' @ a), w)\<rparr> (0::nat)
      [\<lparr>title = ''t'', link = ''l'', summary = '''', source = ''s'', published = 0\<rparr>])) = [''A'', ''models/A'', ''B'', ''models/B'']"
proof -
  have r: "\<forall>a. is_retryable (''429 Too Many Requests: '' @ a)"
  proof
    fix a
    have "py_lower (''429'' @ '' Too Many Requests: '' @ a) = ''429'' @ py_lower ('' Too Many Requests: '' @ a)"
      by (simp add: str_eval)
    then have "py_in ''429'' (py_lower (''429'' @ '' Too Many Requests: '' @ a))"
      by (simp only: py_in_sublist sublist_append_rightI)
    then have "py_in ''429'' (py_lower (''429 Too Many Requests: '' @ a))" by simp
    then show "is_retryable (''429 Too Many Requests: '' @ a)"
      by (simp add: is_retryable_def)
  qed
  have t: "report_trial \<lparr>api_key = ''k'', candidate_models = [''A'', ''B'']\<rparr> \<lparr>models_list = \<lambda>w. (Inl ''unavailable'', w), generate_content = \<lambda>w a p. (Raised (''429 Too Many Requests: '' @ a), w)\<rparr> (0::nat) = [''A'', ''B'']"
    by (simp add: report_trial_def discover_def)
  from generate_report_exhausted [OF _ _ _ r, where self = "\<lparr>api_key = ''k'', candidate_models = [''A'', ''B'']\<rparr>" and c = "\<lparr>models_list = \<lambda>w. (Inl ''unavailable'', w), generate_content = \<lambda>w a p. (Raised (''429 Too Many Requests: '' @ a), w)\<rparr>" and w = "0::nat"
      and news_items = "[\<lparr>title = ''t'', link = ''l'', summary = '''', source = ''s'', published = 0\<rparr>]"] t
  show ?thesis by (simp add: attempt_seq_def actual_ids_def)
qed

theorem merge_models_roster_witness:
  "distinct (merge_models default_candidates [''models/gemini-2.5-pro'', ''models/gemini-3'']) \<and>
   prefix default_candidates
     (merge_models default_candidates [''models/gemini-2.5-pro'', ''models/gemini-3'']) \<and>
   set (merge_models default_candidates [''models/gemini-2.5-pro'', ''models/gemini-3'']) =
     set default_candidates \<union>
     set (map (py_replace ''models/'' '''') [''models/gemini-2.5-pro'', ''models/gemini-3''])"
proof -
  have "distinct default_candidates"
    by (simp add: default_candidates_def)
  then show ?thesis
    by (rule merge_models_roster)
qed

theorem discovery_failure_static_witness:
  "report_trial \<lparr>api_key = ''k'', candidate_models = default_candidates\<rparr>
      \<lparr>models_list = \<lambda>w. (Inl ''503 Service Unavailable'', w),
       generate_content = \<lambda>w a p. (Response None, w)\<rparr> () = default_candidates"
  using discovery_failure_static [of
      "\<lparr>models_list = \<lambda>w. (Inl ''503 Service Unavailable'', w),
        generate_content = \<lambda>w a p. (Response None, w)\<rparr>" "()" "''503 Service Unavailable''" "()"
      "\<lparr>api_key = ''k'', candidate_models = default_candidates\<rparr>"]
  by simp

text \<open>
  The listing succeeds with two models; the first has no generation methods recorded
  (\<open>None\<close>), the second supports \<open>generateContent\<close>; neither reaches the roster.
\<close>

theorem discovery_none_methods_witness:
  "report_trial \<lparr>api_key = ''k'', candidate_models = default_candidates\<rparr>
      \<lparr>models_list = \<lambda>w. (Inr [\<lparr>name = ''models/x'', supported_generation_methods = None\<rparr>,
                               \<lparr>name = ''models/y'',
                                 supported_generation_methods = Some [''generateContent'']\<rparr>], w),
       generate_content = \<lambda>w a p. (Response None, w)\<rparr> () = default_candidates"
  using discovery_none_methods [of
      "\<lparr>models_list = \<lambda>w. (Inr [\<lparr>name = ''models/x'', supported_generation_methods = None\<rparr>,
                               \<lparr>name = ''models/y'',
                                 supported_generation_methods = Some [''generateContent'']\<rparr>], w),
        generate_content = \<lambda>w a p. (Response None, w)\<rparr>" "()"
      "[\<lparr>name = ''models/x'', supported_generation_methods = None\<rparr>,
        \<lparr>name = ''models/y'', supported_generation_methods = Some [''generateContent'']\<rparr>]"
      "()" "\<lparr>name = ''models/x'', supported_generation_methods = None\<rparr>"
      "\<lparr>api_key = ''k'', candidate_models = default_candidates\<rparr>"]
  by simp

theorem generate_report_silent_none_witness:
  "fst (generate_report \<lparr>api_key = ''k'', candidate_models = [''A'']\<rparr>
      \<lparr>models_list = \<lambda>w. (Inl ''unavailable'', w), generate_content = \<lambda>w a p. (Response None, w)\<rparr> (0::nat)
      [\<lparr>title = ''t'', link = ''l'', summary = '''', source = ''s'', published = 0\<rparr>]) = exhausted_msg None [''A''] \<and>
   py_in ''None'' (fst (generate_report \<lparr>api_key = ''k'', candidate_models = [''A'']\<rparr>
      \<lparr>models_list = \<lambda>w. (Inl ''unavailable'', w), generate_content = \<lambda>w a p. (Response None, w)\<rparr> (0::nat)
      [\<lparr>title = ''t'', link = ''l'', summary = '''', source = ''s'', published = 0\<rparr>]))"
proof -
  have t: "report_trial \<lparr>api_key = ''k'', candidate_models = [''A'']\<rparr>
      \<lparr>models_list = \<lambda>w. (Inl ''unavailable'', w), generate_content = \<lambda>w a p. (Response None, w)\<rparr> (0::nat) = [''A'']"
    by (simp add: report_trial_def discover_def)
  have "fst (generate_report \<lparr>api_key = ''k'', candidate_models = [''A'']\<rparr>
      \<lparr>models_list = \<lambda>w. (Inl ''unavailable'', w), generate_content = \<lambda>w a p. (Response None, w)\<rparr> (0::nat)
      [\<lparr>title = ''t'', link = ''l'', summary = '''', source = ''s'', published = 0\<rparr>]) = exhausted_msg None (report_trial \<lparr>api_key = ''k'', candidate_models = [''A'']\<rparr> \<lparr>models_list = \<lambda>w. (Inl ''unavailable'', w), generate_content = \<lambda>w a p. (Response None, w)\<rparr> (0::nat)) \<and>
   py_in ''None'' (fst (generate_report \<lparr>api_key = ''k'', candidate_models = [''A'']\<rparr>
      \<lparr>models_list = \<lambda>w. (Inl ''unavailable'', w), generate_content = \<lambda>w a p. (Response None, w)\<rparr> (0::nat)
      [\<lparr>title = ''t'', link = ''l'', summary = '''', source = ''s'', published = 0\<rparr>]))"
    by (rule generate_report_silent_none) simp_all
  then show ?thesis unfolding t .
qed

theorem merge_models_prefixed_duplicate_witness:
  "merge_models default_candidates [''gemini-2.5-pro''] = default_candidates \<and>
   merge_models default_candidates [''models/'' @ ''gemini-2.5-pro''] = default_candidates"
  by (rule merge_models_prefixed_duplicate) (simp_all add: default_candidates_def)

text \<open>An empty key in the secrets shadows a key in the environment.\<close>

theorem init_collector_key_witness:
  "\<exists>msg. init_collector [''GEMINI_API_KEY'' \<mapsto> ''''] [''GEMINI_API_KEY'' \<mapsto> ''secret''] = Inl msg"
  using init_collector_key [of "[''GEMINI_API_KEY'' \<mapsto> '''']" "[''GEMINI_API_KEY'' \<mapsto> ''secret'']"]
  by simp

end
