(* ===== verification/Storage.thy ===== *)
theory Storage
  imports Prelude "HOL-Library.AList"
begin

text \<open>
  The store: \<open>GitHubStorage\<close> of \<open>src/github_storage.py\<close>. The GitHub repository is a
  record \<open>repo\<close>: the files by path (a JSON value and its \<open>sha\<close>), the status of a
  \<open>GithubException\<close> that \<open>get_contents\<close> raises for a path besides "not found"
  (\<open>faults\<close>: an outage, a permission error), the next \<open>sha\<close> to hand out and the
  commit log (path and message). JSON text is not modelled: a file holds the value that
  \<open>json.dumps\<close> wrote and \<open>json.loads\<close> reads back. \<open>load_json\<close> and \<open>save_json\<close>
  are lines 17--34 and 36--56; an exception is an \<open>Inl\<close> value.
\<close>

section \<open>Data\<close>

datatype json = JNull | JBool bool | JInt int | JStr string | JList "json list"
  | JObj "(string \<times> json) list"

datatype storage_error = GithubException int

record gh_file =
  content :: json
  sha :: nat

record repo =
  files :: "string \<rightharpoonup> gh_file"
  faults :: "string \<rightharpoonup> int"
  next_sha :: nat
  commits :: "(string \<times> string) list"

section \<open>Python dict operations on JSON objects\<close>

text \<open>\<open>d[k]\<close> reads a key; a missing key raises \<open>KeyError\<close> (\<open>None\<close> here).\<close>

definition jlookup :: "(string \<times> json) list \<Rightarrow> string \<Rightarrow> json option" where
  "jlookup kvs k = map_of kvs k"

text \<open>
  \<open>d[k] = v\<close>: an existing key keeps its place and takes the new value, a new key goes
  last. The keys of a dict are distinct, and on such lists \<open>AList.update\<close> does exactly
  this.
\<close>

definition jassign :: "(string \<times> json) list \<Rightarrow> string \<Rightarrow> json \<Rightarrow> (string \<times> json) list" where
  "jassign kvs k v = AList.update k v kvs"

section \<open>The repository calls\<close>

text \<open>\<open>repo.get_contents(path)\<close>.\<close>

definition get_contents :: "repo \<Rightarrow> string \<Rightarrow> storage_error + gh_file" where
  "get_contents r p =
     (case faults r p of
        Some st \<Rightarrow> Inl (GithubException st)
      | None \<Rightarrow> (case files r p of None \<Rightarrow> Inl (GithubException 404) | Some f \<Rightarrow> Inr f))"

text \<open>
  \<open>repo.update_file(path, message, content, sha)\<close>: the \<open>sha\<close> must be the file's
  current one, else GitHub answers 409 Conflict.
\<close>

definition update_file :: "repo \<Rightarrow> string \<Rightarrow> string \<Rightarrow> json \<Rightarrow> nat \<Rightarrow> storage_error + repo" where
  "update_file r p msg data s =
     (case files r p of
        Some f \<Rightarrow>
          if sha f = s then
            Inr (r\<lparr>files := (files r)(p \<mapsto> \<lparr>content = data, sha = next_sha r\<rparr>),
                   next_sha := Suc (next_sha r), commits := commits r @ [(p, msg)]\<rparr>)
          else Inl (GithubException 409)
      | None \<Rightarrow> Inl (GithubException 404))"

text \<open>\<open>repo.create_file(path, message, content)\<close>: 422 when the file exists.\<close>

definition create_file :: "repo \<Rightarrow> string \<Rightarrow> string \<Rightarrow> json \<Rightarrow> storage_error + repo" where
  "create_file r p msg data =
     (case files r p of
        None \<Rightarrow>
          Inr (r\<lparr>files := (files r)(p \<mapsto> \<lparr>content = data, sha = next_sha r\<rparr>),
                 next_sha := Suc (next_sha r), commits := commits r @ [(p, msg)]\<rparr>)
      | Some _ \<Rightarrow> Inl (GithubException 422))"

section \<open>GitHubStorage\<close>

text \<open>Lines 25--32: the value returned for a missing file, chosen by the path's name.\<close>

definition default_for :: "string \<Rightarrow> json" where
  "default_for p =
     (if py_in ''feeds'' p then JList []
      else if py_in ''archive'' p then JObj []
      else if py_in ''stats'' p then JObj [(''total_views'', JInt 0)]
      else JObj [])"

text \<open>\<open>load_json\<close>, lines 17--34.\<close>

definition load_json :: "repo \<Rightarrow> string \<Rightarrow> storage_error + json" where
  "load_json r p =
     (case get_contents r p of
        Inr f \<Rightarrow> Inr (content f)
      | Inl (GithubException st) \<Rightarrow>
          if st = 404 then Inr (default_for p) else Inl (GithubException st))"

text \<open>\<open>save_json\<close>, lines 36--56: update with the \<open>sha\<close> just read, create on 404.\<close>

definition save_json :: "repo \<Rightarrow> string \<Rightarrow> json \<Rightarrow> string \<Rightarrow> storage_error + repo" where
  "save_json r p data msg =
     (case get_contents r p of
        Inr f \<Rightarrow> update_file r p msg data (sha f)
      | Inl (GithubException st) \<Rightarrow>
          if st = 404 then create_file r p msg data else Inl (GithubException st))"

text \<open>
  The two calls \<open>save_json\<close> makes, which other writers may separate: line 40 reads
  the file's \<open>sha\<close> (\<open>None\<close> on 404), lines 41--54 update with that \<open>sha\<close> or
  create the file.
\<close>

definition save_begin :: "repo \<Rightarrow> string \<Rightarrow> storage_error + nat option" where
  "save_begin r p =
     (case get_contents r p of
        Inr f \<Rightarrow> Inr (Some (sha f))
      | Inl (GithubException st) \<Rightarrow> if st = 404 then Inr None else Inl (GithubException st))"

fun save_finish :: "repo \<Rightarrow> string \<Rightarrow> json \<Rightarrow> string \<Rightarrow> nat option \<Rightarrow> storage_error + repo" where
  "save_finish r p data msg (Some s) = update_file r p msg data s"
| "save_finish r p data msg None = create_file r p msg data"

text \<open>
  The repository is well formed when no fault is a "not found" (a missing file is told by
  \<open>files\<close>) and every \<open>sha\<close> handed out is below \<open>next_sha\<close>.
\<close>

definition repo_wf :: "repo \<Rightarrow> bool" where
  "repo_wf r \<longleftrightarrow>
     (\<forall>p st. faults r p = Some st \<longrightarrow> st \<noteq> 404) \<and>
     (\<forall>p f. files r p = Some f \<longrightarrow> sha f < next_sha r)"

text \<open>The effect of a successful write, whichever branch of \<open>save_json\<close> takes it.\<close>

definition stored :: "repo \<Rightarrow> string \<Rightarrow> json \<Rightarrow> string \<Rightarrow> repo" where
  "stored r p data msg =
     r\<lparr>files := (files r)(p \<mapsto> \<lparr>content = data, sha = next_sha r\<rparr>),
       next_sha := Suc (next_sha r), commits := commits r @ [(p, msg)]\<rparr>"

text \<open>
  The constructor, lines 8--12: the token and the repository name are each read from the
  secrets when they hold the name, else from the environment (\<open>None\<close> when unset);
  either one missing or empty raises \<open>ValueError\<close>. Lines 14--15 then open the
  connection, which the model leaves out: the result is the pair of credentials.
\<close>

definition init_storage :: "(string \<rightharpoonup> string) \<Rightarrow> (string \<rightharpoonup> string) \<Rightarrow> string + (string \<times> string)" where
  "init_storage secrets env =
     (let token = (case secrets ''GITHUB_TOKEN'' of Some t \<Rightarrow> Some t | None \<Rightarrow> env ''GITHUB_TOKEN'');
          repo_name = (case secrets ''REPO_NAME'' of Some n \<Rightarrow> Some n | None \<Rightarrow> env ''REPO_NAME'')
      in case (token, repo_name) of
           (Some t, Some n) \<Rightarrow>
             if t = [] \<or> n = []
             then Inl ''GITHUB_TOKEN and REPO_NAME must be set in secrets or environment variables.''
             else Inr (t, n)
         | _ \<Rightarrow> Inl ''GITHUB_TOKEN and REPO_NAME must be set in secrets or environment variables.'')"

section \<open>Lemmas\<close>

lemma init_storage_Inr:
  "init_storage secrets env = Inr (t, n) \<Longrightarrow> t \<noteq> [] \<and> n \<noteq> []"
  by (auto simp: init_storage_def Let_def split: option.splits if_splits)


lemma save_json_ok:
  "faults r p = None \<Longrightarrow> save_json r p data msg = Inr (stored r p data msg)"
  by (auto simp: save_json_def get_contents_def update_file_def create_file_def stored_def
      split: option.splits)

lemma save_json_Inr:
  "repo_wf r \<Longrightarrow> save_json r p data msg = Inr r' \<Longrightarrow> faults r p = None \<and> r' = stored r p data msg"
  by (cases "faults r p")
    (auto simp: save_json_ok, auto simp: save_json_def get_contents_def repo_wf_def)

lemma load_json_stored_other:
  "q \<noteq> p \<Longrightarrow> load_json (stored r p data msg) q = load_json r q"
  by (cases "faults r q") (simp_all add: load_json_def get_contents_def stored_def)

lemma load_json_eq:
  "repo_wf r \<Longrightarrow>
   load_json r p =
     (case faults r p of
        Some st \<Rightarrow> Inl (GithubException st)
      | None \<Rightarrow> (case files r p of None \<Rightarrow> Inr (default_for p) | Some f \<Rightarrow> Inr (content f)))"
  by (auto simp: load_json_def get_contents_def repo_wf_def split: option.splits)

lemma repo_wf_stored: "repo_wf r \<Longrightarrow> repo_wf (stored r p data msg)"
  by (auto simp: stored_def repo_wf_def less_Suc_eq)

lemma load_json_after_save:
  assumes "repo_wf r" and "save_json r p data msg = Inr r'"
  shows "load_json r' q = (if q = p then Inr data else load_json r q)"
proof -
  from save_json_Inr [OF assms] have f: "faults r p = None" and r': "r' = stored r p data msg"
    by auto
  show ?thesis
  proof (cases "q = p")
    case True
    with f r' repo_wf_stored [OF assms(1)] show ?thesis
      by (simp add: load_json_eq stored_def)
  next
    case False
    with r' show ?thesis by (simp add: load_json_stored_other)
  qed
qed

lemma save_json_wf:
  "repo_wf r \<Longrightarrow> save_json r p data msg = Inr r' \<Longrightarrow> repo_wf r'"
  using save_json_Inr repo_wf_stored by blast

text \<open>\<open>save_json\<close> is its two calls run back to back.\<close>

lemma save_json_phases:
  "save_json r p data msg =
     (case save_begin r p of Inl e \<Rightarrow> Inl e | Inr h \<Rightarrow> save_finish r p data msg h)"
  by (simp add: save_json_def save_begin_def split: sum.splits storage_error.splits)

section \<open>Properties of the store\<close>

text \<open>
  C18. Round trip: after a successful \<open>save_json\<close>, \<open>load_json\<close> of the same path
  returns the value saved, whether the file was created or updated.
\<close>

theorem save_load_roundtrip:
  assumes "repo_wf r" and "save_json r p data msg = Inr r'"
  shows "load_json r' p = Inr data"
  using load_json_after_save [OF assms, of p] by simp

text \<open>
  C19. Frame: a successful \<open>save_json\<close> leaves every other path as it was, records one
  commit with the given message, and hands the file a fresh \<open>sha\<close>.
\<close>

theorem save_json_frame:
  assumes "repo_wf r" and "save_json r p data msg = Inr r'" and "q \<noteq> p"
  shows "load_json r' q = load_json r q \<and> commits r' = commits r @ [(p, msg)] \<and>
    files r' p = Some \<lparr>content = data, sha = next_sha r\<rparr> \<and> (\<forall>f \<in> ran (files r). sha f \<noteq> next_sha r)"
proof -
  from save_json_Inr [OF assms(1,2)] have r': "r' = stored r p data msg" by auto
  have "\<forall>f \<in> ran (files r). sha f \<noteq> next_sha r"
    using assms(1) by (fastforce simp: repo_wf_def ran_def)
  with assms(3) show ?thesis
    by (simp add: r' load_json_stored_other) (simp add: stored_def)
qed

text \<open>
  C20. Defaults: with no fault, a missing feed list loads as an empty list, a missing
  archive as an empty object, missing statistics as a zero counter; the default is chosen
  by the path's name, so any missing path that mentions \<open>feeds\<close> loads as an empty list.
\<close>

theorem load_json_missing:
  assumes "\<forall>p. faults r p = None"
    and "files r ''data/feeds.json'' = None" and "files r ''data/news_archive.json'' = None"
    and "files r ''data/stats.json'' = None"
  shows "load_json r ''data/feeds.json'' = Inr (JList []) \<and>
    load_json r ''data/news_archive.json'' = Inr (JObj []) \<and>
    load_json r ''data/stats.json'' = Inr (JObj [(''total_views'', JInt 0)]) \<and>
    (\<forall>p. files r p = None \<longrightarrow> py_in ''feeds'' p \<longrightarrow> load_json r p = Inr (JList []))"
  using assms by (simp add: load_json_def get_contents_def default_for_def)

text \<open>
  C21. Faults other than "not found" propagate: \<open>load_json\<close> and \<open>save_json\<close> raise
  them, and nothing is written.
\<close>

theorem storage_fault_propagates:
  assumes "repo_wf r" and "faults r p = Some st"
  shows "load_json r p = Inl (GithubException st) \<and> save_json r p data msg = Inl (GithubException st)"
  using assms by (auto simp: load_json_def save_json_def get_contents_def repo_wf_def)

section \<open>Witnesses\<close>

text \<open>An empty repository, and one whose \<open>data/stats.json\<close> answers 500.\<close>

theorem save_load_roundtrip_witness:
  "repo_wf \<lparr>files = Map.empty, faults = Map.empty, next_sha = 0, commits = []\<rparr> \<and>
   save_json \<lparr>files = Map.empty, faults = Map.empty, next_sha = 0, commits = []\<rparr>
     ''data/feeds.json'' (JList [JStr ''u'']) ''Add feed: u'' =
     Inr \<lparr>files = [''data/feeds.json'' \<mapsto> \<lparr>content = JList [JStr ''u''], sha = 0\<rparr>],
          faults = Map.empty, next_sha = 1, commits = [(''data/feeds.json'', ''Add feed: u'')]\<rparr> \<and>
   load_json \<lparr>files = [''data/feeds.json'' \<mapsto> \<lparr>content = JList [JStr ''u''], sha = 0\<rparr>],
          faults = Map.empty, next_sha = 1, commits = [(''data/feeds.json'', ''Add feed: u'')]\<rparr>
     ''data/feeds.json'' = Inr (JList [JStr ''u''])"
proof -
  have w: "repo_wf \<lparr>files = Map.empty, faults = Map.empty, next_sha = 0, commits = []\<rparr>"
    by (simp add: repo_wf_def)
  have s: "save_json \<lparr>files = Map.empty, faults = Map.empty, next_sha = 0, commits = []\<rparr>
     ''data/feeds.json'' (JList [JStr ''u'']) ''Add feed: u'' =
     Inr \<lparr>files = [''data/feeds.json'' \<mapsto> \<lparr>content = JList [JStr ''u''], sha = 0\<rparr>],
          faults = Map.empty, next_sha = 1, commits = [(''data/feeds.json'', ''Add feed: u'')]\<rparr>"
    by (simp add: save_json_def get_contents_def create_file_def)
  from w s save_load_roundtrip [OF w s] show ?thesis by simp
qed

theorem save_json_frame_witness:
  "load_json \<lparr>files = [''data/feeds.json'' \<mapsto> \<lparr>content = JList [JStr ''u''], sha = 0\<rparr>],
          faults = Map.empty, next_sha = 1, commits = [(''data/feeds.json'', ''Add feed: u'')]\<rparr>
     ''data/stats.json'' =
   load_json \<lparr>files = Map.empty, faults = Map.empty, next_sha = 0, commits = []\<rparr> ''data/stats.json'' \<and>
   [(''data/feeds.json'', ''Add feed: u'')] = [] @ [(''data/feeds.json'', ''Add feed: u'')]"
proof -
  have w: "repo_wf \<lparr>files = Map.empty, faults = Map.empty, next_sha = 0, commits = []\<rparr>"
    by (simp add: repo_wf_def)
  have s: "save_json \<lparr>files = Map.empty, faults = Map.empty, next_sha = 0, commits = []\<rparr>
     ''data/feeds.json'' (JList [JStr ''u'']) ''Add feed: u'' =
     Inr \<lparr>files = [''data/feeds.json'' \<mapsto> \<lparr>content = JList [JStr ''u''], sha = 0\<rparr>],
          faults = Map.empty, next_sha = 1, commits = [(''data/feeds.json'', ''Add feed: u'')]\<rparr>"
    by (simp add: save_json_def get_contents_def create_file_def)
  have q: "''data/stats.json'' \<noteq> ''data/feeds.json''" by simp
  from save_json_frame [OF w s q] show ?thesis by simp
qed

theorem load_json_missing_witness:
  "load_json \<lparr>files = Map.empty, faults = Map.empty, next_sha = 0, commits = []\<rparr> ''data/feeds.json'' = Inr (JList []) \<and>
   load_json \<lparr>files = Map.empty, faults = Map.empty, next_sha = 0, commits = []\<rparr> ''data/news_archive.json'' = Inr (JObj []) \<and>
   load_json \<lparr>files = Map.empty, faults = Map.empty, next_sha = 0, commits = []\<rparr> ''data/stats.json'' = Inr (JObj [(''total_views'', JInt 0)]) \<and>
   load_json \<lparr>files = Map.empty, faults = Map.empty, next_sha = 0, commits = []\<rparr> ''backup/feeds_stats.json'' = Inr (JList [])"
proof -
  have "py_in ''feeds'' ''backup/feeds_stats.json''" by simp
  with load_json_missing [of "\<lparr>files = Map.empty, faults = Map.empty, next_sha = 0, commits = []\<rparr>"] show ?thesis by simp
qed

theorem storage_fault_propagates_witness:
  "load_json \<lparr>files = Map.empty, faults = [''data/stats.json'' \<mapsto> 500], next_sha = 0, commits = []\<rparr>
     ''data/stats.json'' = Inl (GithubException 500) \<and>
   save_json \<lparr>files = Map.empty, faults = [''data/stats.json'' \<mapsto> 500], next_sha = 0, commits = []\<rparr>
     ''data/stats.json'' JNull ''m'' = Inl (GithubException 500)"
proof -
  have w: "repo_wf \<lparr>files = Map.empty, faults = [''data/stats.json'' \<mapsto> 500], next_sha = 0, commits = []\<rparr>"
    by (simp add: repo_wf_def)
  from storage_fault_propagates [OF w] show ?thesis by simp
qed

end
