(* ===== verification/App.thy ===== *)
theory App
  imports Storage Reporter "HOL-Library.List_Lexorder" "HOL-Library.Char_ord"
begin

text \<open>
  The handlers of \<open>src/app.py\<close>, each one Streamlit run of the page as a function of the
  store (\<open>Storage.repo\<close>) and of what the user entered: the view counter (lines 23--27),
  the newsroom page (30--46), the password gate (52--57), adding and deleting a feed
  (64--83) and the analysis run (88--104), which composes \<open>fetch_news\<close> and
  \<open>generate_report\<close>. An exception that would end the run (a storage fault, a
  \<open>KeyError\<close>, a \<open>TypeError\<close>) is an \<open>Inl\<close> value; a Streamlit message that ends
  the run normally is part of the result.
\<close>

section \<open>Data\<close>

datatype app_error =
    StoreError storage_error
  | KeyError string
  | TypeError
  | AttributeError

definition stats_path :: string where "stats_path = ''data/stats.json''"
definition feeds_path :: string where "feeds_path = ''data/feeds.json''"
definition archive_path :: string where "archive_path = ''data/news_archive.json''"

section \<open>Python semantics used by the handlers\<close>

text \<open>Truth of a JSON value (\<open>if not x\<close>): empty containers, zero, \<open>None\<close> are false.\<close>

fun py_truthy :: "json \<Rightarrow> bool" where
  "py_truthy JNull = False"
| "py_truthy (JBool b) = b"
| "py_truthy (JInt n) = (n \<noteq> 0)"
| "py_truthy (JStr s) = (s \<noteq> [])"
| "py_truthy (JList xs) = (xs \<noteq> [])"
| "py_truthy (JObj kvs) = (kvs \<noteq> [])"

text \<open>\<open>x + 1\<close> for the counter: an \<open>int\<close>, or a \<open>bool\<close> (a subclass of \<open>int\<close>).\<close>

fun py_incr :: "json \<Rightarrow> app_error + int" where
  "py_incr (JInt n) = Inr (n + 1)"
| "py_incr (JBool b) = Inr ((if b then 1 else 0) + 1)"
| "py_incr _ = Inl TypeError"

section \<open>Handlers\<close>

text \<open>\<open>update_view_count\<close>, lines 23--27.\<close>

definition update_view_count :: "repo \<Rightarrow> app_error + (repo \<times> int)" where
  "update_view_count r =
     (case load_json r stats_path of
        Inl e \<Rightarrow> Inl (StoreError e)
      | Inr (JObj kvs) \<Rightarrow>
          (case jlookup kvs ''total_views'' of
             None \<Rightarrow> Inl (KeyError ''total_views'')
           | Some v \<Rightarrow>
               (case py_incr v of
                  Inl e \<Rightarrow> Inl e
                | Inr n \<Rightarrow>
                    (case save_json r stats_path (JObj (jassign kvs ''total_views'' (JInt n)))
                            ''Increment view count'' of
                       Inl e \<Rightarrow> Inl (StoreError e)
                     | Inr r' \<Rightarrow> Inr (r', n))))
      | Inr _ \<Rightarrow> Inl TypeError)"

text \<open>
  The newsroom page, lines 30--46: count the view, then show the archive's report of the
  date the select box offers first, the greatest key (\<open>sorted(..., reverse=True)\<close>).
  The result is what the page shows (the count, and the date and report if the archive
  is not empty) or the exception, and the store after the run: the count is saved before
  the archive is read, so it stays saved when reading the archive fails.
\<close>

definition newsroom :: "repo \<Rightarrow> (app_error + int \<times> (string \<times> json) option) \<times> repo" where
  "newsroom r =
     (case update_view_count r of
        Inl e \<Rightarrow> (Inl e, r)
      | Inr (r', total_views) \<Rightarrow>
          (case load_json r' archive_path of
             Inl e \<Rightarrow> Inl (StoreError e)
           | Inr (JObj kvs) \<Rightarrow>
               if kvs = [] then Inr (total_views, None)
               else
                 (let dates = rev (sort (map fst kvs)); selected_date = hd dates
                  in Inr (total_views, Some (selected_date, the (jlookup kvs selected_date))))
           | Inr v \<Rightarrow> if \<not> py_truthy v then Inr (total_views, None) else Inl AttributeError,
           r'))"

text \<open>Lines 52--55: the expected password, with the built-in fallback \<open>admin123\<close>.\<close>

definition admin_password :: "(string \<rightharpoonup> string) \<Rightarrow> (string \<rightharpoonup> string) \<Rightarrow> string" where
  "admin_password secrets env =
     (case secrets ''ADMIN_PASSWORD'' of
        Some p \<Rightarrow> p
      | None \<Rightarrow> (case env ''ADMIN_PASSWORD'' of Some p \<Rightarrow> p | None \<Rightarrow> ''admin123''))"

definition admin_ok :: "string \<Rightarrow> (string \<rightharpoonup> string) \<Rightarrow> (string \<rightharpoonup> string) \<Rightarrow> bool" where
  "admin_ok input secrets env = (input = admin_password secrets env)"

text \<open>
  Lines 64--72, the "add" button: \<open>if new_feed and new_feed not in feeds\<close>, append
  and save. The membership test of a string in an object looks at its keys, in a string
  at its substrings, and raises \<open>TypeError\<close> on other values; only a list has
  \<open>append\<close>.
\<close>

definition add_feed :: "repo \<Rightarrow> string \<Rightarrow> app_error + repo" where
  "add_feed r new_feed =
     (case load_json r feeds_path of
        Inl e \<Rightarrow> Inl (StoreError e)
      | Inr feeds \<Rightarrow>
          if new_feed = [] then Inr r
          else
            (case feeds of
               JList xs \<Rightarrow>
                 if JStr new_feed \<notin> set xs then
                   (case save_json r feeds_path (JList (xs @ [JStr new_feed]))
                           (''Add feed: '' @ new_feed) of
                      Inl e \<Rightarrow> Inl (StoreError e)
                    | Inr r' \<Rightarrow> Inr r')
                 else Inr r
             | JObj kvs \<Rightarrow> if new_feed \<notin> fst ` set kvs then Inl AttributeError else Inr r
             | JStr s \<Rightarrow> if \<not> py_in new_feed s then Inl AttributeError else Inr r
             | _ \<Rightarrow> Inl TypeError))"

text \<open>\<open>str(feed)\<close> in the commit message of a deletion.\<close>

fun json_text :: "json \<Rightarrow> string" where
  "json_text (JStr s) = s"
| "json_text _ = ''<value>''"

text \<open>
  Lines 76--83, the "delete" button of row \<open>i\<close>: the rows are those of
  \<open>enumerate(feeds)\<close>, so \<open>i\<close> is in range. Only a list has \<open>pop(i)\<close>: a dict
  has \<open>pop\<close> but no integer key (\<open>KeyError\<close>), a string has none; a value that is
  not iterable fails in \<open>enumerate\<close>.
\<close>

definition delete_feed :: "repo \<Rightarrow> nat \<Rightarrow> app_error + repo" where
  "delete_feed r i =
     (case load_json r feeds_path of
        Inl e \<Rightarrow> Inl (StoreError e)
      | Inr (JList xs) \<Rightarrow>
          if i < length xs then
            (case save_json r feeds_path (JList (take i xs @ drop (Suc i) xs))
                    (''Delete feed: '' @ json_text (xs ! i)) of
               Inl e \<Rightarrow> Inl (StoreError e)
             | Inr r' \<Rightarrow> Inr r')
          else Inr r
      | Inr (JObj kvs) \<Rightarrow> if i < length kvs then Inl (KeyError ''<int>'') else Inr r
      | Inr (JStr s) \<Rightarrow> if i < length s then Inl AttributeError else Inr r
      | Inr _ \<Rightarrow> Inl TypeError)"

text \<open>
  What \<open>for url in rss_urls\<close> iterates over: a list's elements, a dict's keys, a
  string's characters. A list element that is not a string makes \<open>feedparser.parse\<close>
  raise inside the \<open>try\<close>, which only adds a log line, so it is left out here: the
  collected items are the same.
\<close>

definition feed_urls :: "json list \<Rightarrow> url list" where
  "feed_urls xs = [s. JStr s \<leftarrow> xs]"

fun iter_urls :: "json \<Rightarrow> app_error + url list" where
  "iter_urls (JList xs) = Inr (feed_urls xs)"
| "iter_urls (JObj kvs) = Inr (map fst kvs)"
| "iter_urls (JStr s) = Inr (map (\<lambda>c. [c]) s)"
| "iter_urls _ = Inl TypeError"

datatype run_outcome = NoFeeds | Report string string

text \<open>
  Lines 88--104, the "start analysis" button: with an empty feed list an error message;
  otherwise collect, write the report, and store it in the archive under \<open>today\<close>, the
  run's minute as \<open>strftime("%Y-%m-%d %H:%M")\<close> renders it.
\<close>

definition run_analysis :: "repo \<Rightarrow> parser \<Rightarrow> timestamp \<Rightarrow> news_collector \<Rightarrow> 'w client \<Rightarrow> 'w \<Rightarrow>
    string \<Rightarrow> (app_error + (repo \<times> run_outcome)) \<times> 'w" where
  "run_analysis r parse now collector c w today =
     (case load_json r feeds_path of
        Inl e \<Rightarrow> (Inl (StoreError e), w)
      | Inr feeds \<Rightarrow>
          if \<not> py_truthy feeds then (Inr (r, NoFeeds), w)
          else
            (case iter_urls feeds of
               Inl e \<Rightarrow> (Inl e, w)
             | Inr urls \<Rightarrow>
                 (let news_items = fst (fetch_news parse now urls);
                      (report, st) = generate_report collector c w news_items
                  in ((case load_json r archive_path of
                         Inl e \<Rightarrow> Inl (StoreError e)
                       | Inr (JObj kvs) \<Rightarrow>
                           (case save_json r archive_path (JObj (jassign kvs today (JStr report)))
                                   (''New report for '' @ today) of
                              Inl e \<Rightarrow> Inl (StoreError e)
                            | Inr r' \<Rightarrow> Inr (r', Report today report))
                       | Inr _ \<Rightarrow> Inl TypeError),
                      world st))))"

section \<open>Invariants of the stored data\<close>

text \<open>
  The feed list the handlers keep: a list of distinct non-empty strings. The statistics:
  an object whose \<open>total_views\<close> is an integer.
\<close>

definition feeds_ok :: "json \<Rightarrow> bool" where
  "feeds_ok v =
     (case v of
        JList xs \<Rightarrow> distinct xs \<and> (\<forall>x \<in> set xs. \<exists>s. x = JStr s \<and> s \<noteq> [])
      | _ \<Rightarrow> False)"

definition stats_ok :: "json \<Rightarrow> bool" where
  "stats_ok v =
     (case v of JObj kvs \<Rightarrow> (\<exists>n. jlookup kvs ''total_views'' = Some (JInt n)) | _ \<Rightarrow> False)"

definition feeds_inv :: "repo \<Rightarrow> bool" where
  "feeds_inv r = (\<forall>v. load_json r feeds_path = Inr v \<longrightarrow> feeds_ok v)"

section \<open>The application as a sequence of page runs\<close>

text \<open>
  One Streamlit run triggered by the user: viewing the newsroom, adding a feed, deleting
  the feed of a row, starting the analysis (with the feeds' network, the clock and the
  minute it renders). A run that raises leaves the store as it was, since every handler
  writes last; the backend's world keeps what the model calls did.
\<close>

datatype admin_action = AddFeed string | DeleteFeed nat | Run parser timestamp string

text \<open>
  The dashboard tabs, lines 59--104, once the gate has let the run through: the one
  button the user pressed.
\<close>

fun dashboard :: "news_collector \<Rightarrow> 'w client \<Rightarrow> repo \<times> 'w \<Rightarrow> admin_action \<Rightarrow> repo \<times> 'w" where
  "dashboard self c (r, w) (AddFeed s) =
     (case add_feed r s of Inl _ \<Rightarrow> (r, w) | Inr r' \<Rightarrow> (r', w))"
| "dashboard self c (r, w) (DeleteFeed i) =
     (case delete_feed r i of Inl _ \<Rightarrow> (r, w) | Inr r' \<Rightarrow> (r', w))"
| "dashboard self c (r, w) (Run parse now today) =
     (case run_analysis r parse now self c w today of
        (Inl _, w') \<Rightarrow> (r, w')
      | (Inr (r', _), w') \<Rightarrow> (r', w'))"

text \<open>
  The menu of lines 20, 30 and 49: the newsroom, or the dashboard with the password typed
  in line 52, which \<open>st.stop()\<close> ends (line 57) unless it is the expected one.
\<close>

datatype event = View | Dashboard string admin_action

fun app_step :: "news_collector \<Rightarrow> 'w client \<Rightarrow> (string \<rightharpoonup> string) \<Rightarrow> (string \<rightharpoonup> string) \<Rightarrow>
    repo \<times> 'w \<Rightarrow> event \<Rightarrow> repo \<times> 'w" where
  "app_step self c secrets env (r, w) View = (snd (newsroom r), w)"
| "app_step self c secrets env s (Dashboard pw a) =
     (if admin_ok pw secrets env then dashboard self c s a else s)"

definition app_run :: "news_collector \<Rightarrow> 'w client \<Rightarrow> (string \<rightharpoonup> string) \<Rightarrow> (string \<rightharpoonup> string) \<Rightarrow>
    repo \<times> 'w \<Rightarrow> event list \<Rightarrow> repo \<times> 'w" where
  "app_run self c secrets env s evs = foldl (app_step self c secrets env) s evs"

text \<open>The view count as the statistics file holds it.\<close>

definition views :: "repo \<Rightarrow> int option" where
  "views r =
     (case load_json r stats_path of
        Inr (JObj kvs) \<Rightarrow> (case jlookup kvs ''total_views'' of Some (JInt n) \<Rightarrow> Some n | _ \<Rightarrow> None)
      | _ \<Rightarrow> None)"

section \<open>Lemmas\<close>

lemma app_paths_distinct [simp]:
  "stats_path \<noteq> feeds_path" "feeds_path \<noteq> stats_path" "archive_path \<noteq> feeds_path"
  "feeds_path \<noteq> archive_path" "stats_path \<noteq> archive_path" "archive_path \<noteq> stats_path"
  by (simp_all add: stats_path_def feeds_path_def archive_path_def)

lemma update_view_count_writes:
  "update_view_count r = Inr (r', n) \<Longrightarrow> \<exists>d m. save_json r stats_path d m = Inr r'"
  by (auto simp: update_view_count_def split: sum.splits json.splits option.splits)

lemma newsroom_writes:
  "snd (newsroom r) = r \<or> (\<exists>d m. save_json r stats_path d m = Inr (snd (newsroom r)))"
  by (auto simp: newsroom_def Let_def dest: update_view_count_writes
      split: sum.splits json.splits option.splits)

lemma add_feed_writes:
  "add_feed r s = Inr r' \<Longrightarrow>
   r' = r \<or> (\<exists>xs. load_json r feeds_path = Inr (JList xs) \<and> s \<noteq> [] \<and> JStr s \<notin> set xs \<and>
     save_json r feeds_path (JList (xs @ [JStr s])) (''Add feed: '' @ s) = Inr r')"
  by (auto simp: add_feed_def split: sum.splits json.splits if_splits)

lemma delete_feed_writes:
  "delete_feed r i = Inr r' \<Longrightarrow>
   r' = r \<or> (\<exists>xs m. load_json r feeds_path = Inr (JList xs) \<and> i < length xs \<and>
     save_json r feeds_path (JList (take i xs @ drop (Suc i) xs)) m = Inr r')"
  by (auto simp: delete_feed_def split: sum.splits json.splits if_splits)

lemma run_analysis_writes:
  "fst (run_analysis r parse now self c w today) = Inr (r', out) \<Longrightarrow>
   r' = r \<or> (\<exists>d m. save_json r archive_path d m = Inr r')"
  by (auto simp: run_analysis_def Let_def split: sum.splits json.splits if_splits prod.splits)

lemma feeds_ok_add:
  "feeds_ok (JList xs) \<Longrightarrow> s \<noteq> [] \<Longrightarrow> JStr s \<notin> set xs \<Longrightarrow> feeds_ok (JList (xs @ [JStr s]))"
  by (auto simp: feeds_ok_def)

lemma feeds_ok_delete:
  "feeds_ok (JList xs) \<Longrightarrow> feeds_ok (JList (take i xs @ drop (Suc i) xs))"
  by (auto simp: feeds_ok_def set_take_disj_set_drop_if_distinct dest: in_set_takeD in_set_dropD)

lemma feeds_inv_save_other:
  "repo_wf r \<Longrightarrow> save_json r p d m = Inr r' \<Longrightarrow> p \<noteq> feeds_path \<Longrightarrow> feeds_inv r \<Longrightarrow> feeds_inv r'"
  by (simp add: feeds_inv_def load_json_after_save)

lemma feeds_inv_save_feeds:
  "repo_wf r \<Longrightarrow> save_json r feeds_path d m = Inr r' \<Longrightarrow> feeds_ok d \<Longrightarrow> feeds_inv r'"
  by (simp add: feeds_inv_def load_json_after_save)

lemma dashboard_inv:
  assumes "repo_wf r" and "feeds_inv r" and "dashboard self c (r, w) a = (r', w')"
  shows "repo_wf r' \<and> feeds_inv r'"
proof (cases a)
  case (AddFeed s)
  show ?thesis
  proof (cases "add_feed r s")
    case (Inl e)
    with assms AddFeed show ?thesis by simp
  next
    case (Inr r1)
    with assms AddFeed have r1: "r' = r1" by simp
    from add_feed_writes [OF Inr] show ?thesis
    proof
      assume "r1 = r"
      with r1 assms show ?thesis by simp
    next
      assume "\<exists>xs. load_json r feeds_path = Inr (JList xs) \<and> s \<noteq> [] \<and> JStr s \<notin> set xs \<and>
        save_json r feeds_path (JList (xs @ [JStr s])) (''Add feed: '' @ s) = Inr r1"
      then obtain xs where l: "load_json r feeds_path = Inr (JList xs)" and "s \<noteq> []"
        and "JStr s \<notin> set xs" and sv: "save_json r feeds_path (JList (xs @ [JStr s])) (''Add feed: '' @ s) = Inr r1"
        by blast
      moreover from assms(2) l have "feeds_ok (JList xs)" by (simp add: feeds_inv_def)
      ultimately show ?thesis
        using r1 assms(1) by (blast intro: save_json_wf feeds_inv_save_feeds feeds_ok_add)
    qed
  qed
next
  case (DeleteFeed i)
  show ?thesis
  proof (cases "delete_feed r i")
    case (Inl e)
    with assms DeleteFeed show ?thesis by simp
  next
    case (Inr r1)
    with assms DeleteFeed have r1: "r' = r1" by simp
    from delete_feed_writes [OF Inr] show ?thesis
    proof
      assume "r1 = r"
      with r1 assms show ?thesis by simp
    next
      assume "\<exists>xs m. load_json r feeds_path = Inr (JList xs) \<and> i < length xs \<and>
        save_json r feeds_path (JList (take i xs @ drop (Suc i) xs)) m = Inr r1"
      then obtain xs m where l: "load_json r feeds_path = Inr (JList xs)"
        and sv: "save_json r feeds_path (JList (take i xs @ drop (Suc i) xs)) m = Inr r1"
        by blast
      moreover from assms(2) l have "feeds_ok (JList xs)" by (simp add: feeds_inv_def)
      ultimately show ?thesis
        using r1 assms(1) by (blast intro: save_json_wf feeds_inv_save_feeds feeds_ok_delete)
    qed
  qed
next
  case (Run parse now today)
  show ?thesis
  proof (cases "fst (run_analysis r parse now self c w today)")
    case (Inl e)
    with assms Run show ?thesis by (auto split: prod.splits)
  next
    case (Inr res)
    then obtain r1 out where res: "fst (run_analysis r parse now self c w today) = Inr (r1, out)"
      by (cases res) auto
    with assms Run have "r' = r1" by (auto split: prod.splits)
    with run_analysis_writes [OF res] assms(1,2) show ?thesis
      by (auto intro: save_json_wf feeds_inv_save_other)
  qed
qed

lemma app_step_inv:
  assumes "repo_wf r" and "feeds_inv r" and "app_step self c secrets env (r, w) ev = (r', w')"
  shows "repo_wf r' \<and> feeds_inv r'"
proof (cases ev)
  case View
  with assms newsroom_writes [of r] show ?thesis
    by (auto intro: save_json_wf feeds_inv_save_other)
next
  case (Dashboard pw a)
  show ?thesis
  proof (cases "admin_ok pw secrets env")
    case True
    with assms(3) Dashboard have "dashboard self c (r, w) a = (r', w')" by simp
    with assms(1,2) show ?thesis by (rule dashboard_inv)
  next
    case False
    with assms Dashboard show ?thesis by simp
  qed
qed

lemma jlookup_jassign [simp]: "jlookup (jassign kvs k v) k = Some v"
  by (simp add: jlookup_def jassign_def update_conv')

lemma jassign_twice [simp]: "jassign (jassign kvs k v1) k v2 = jassign kvs k v2"
  by (simp add: jassign_def)

lemma faults_save_json:
  "repo_wf r \<Longrightarrow> save_json r p d m = Inr r' \<Longrightarrow> faults r' = faults r"
  using save_json_Inr by (fastforce simp: stored_def)

lemma update_view_count_ok:
  assumes "repo_wf r" and "faults r stats_path = None"
    and "load_json r stats_path = Inr (JObj kvs)" and "jlookup kvs ''total_views'' = Some (JInt n)"
  shows "update_view_count r =
    Inr (stored r stats_path (JObj (jassign kvs ''total_views'' (JInt (n + 1)))) ''Increment view count'',
         n + 1)"
  using assms by (simp add: update_view_count_def save_json_ok)

lemma sort_last_max:
  assumes "ks \<noteq> []"
  shows "last (sort ks) \<in> set ks \<and> (\<forall>k \<in> set ks. k \<le> last (sort ks))"
proof -
  let ?s = "sort ks"
  have ne: "?s \<noteq> []" using assms by (metis length_0_conv length_sort)
  then have split: "?s = butlast ?s @ [last ?s]" by simp
  have "sorted (butlast ?s @ [last ?s])" using split sorted_sort by metis
  then have "\<forall>x \<in> set (butlast ?s). x \<le> last ?s" by (simp add: sorted_append)
  moreover have "set ks = set (butlast ?s) \<union> {last ?s}"
    using split by (metis set_append set_sort empty_set list.simps(15) sup_bot_right)
  ultimately show ?thesis by auto
qed

lemma newsroom_store:
  "snd (newsroom r) = (case update_view_count r of Inl _ \<Rightarrow> r | Inr (r', _) \<Rightarrow> r')"
  by (auto simp: newsroom_def split: sum.splits)

lemma view_step:
  assumes "repo_wf r" and "faults r stats_path = None" and "views r = Some n"
  shows "repo_wf (snd (newsroom r)) \<and> faults (snd (newsroom r)) = faults r \<and>
    views (snd (newsroom r)) = Some (n + 1)"
proof -
  from assms(3) obtain kvs where l: "load_json r stats_path = Inr (JObj kvs)"
    and t: "jlookup kvs ''total_views'' = Some (JInt n)"
    by (auto simp: views_def split: sum.splits json.splits option.splits)
  let ?d = "JObj (jassign kvs ''total_views'' (JInt (n + 1)))"
  have s: "save_json r stats_path ?d ''Increment view count'' =
      Inr (stored r stats_path ?d ''Increment view count'')"
    using assms(2) by (rule save_json_ok)
  have "snd (newsroom r) = stored r stats_path ?d ''Increment view count''"
    using update_view_count_ok [OF assms(1,2) l t] by (simp add: newsroom_store)
  with s assms(1) show ?thesis
    by (simp add: save_json_wf faults_save_json load_json_after_save views_def)
qed

lemma app_run_Cons:
  "app_run self c secrets env s (ev # evs) =
   app_run self c secrets env (app_step self c secrets env s ev) evs"
  by (simp add: app_run_def)

lemma run_analysis_ok:
  assumes "load_json r feeds_path = Inr (JList xs)" and "xs \<noteq> []"
    and "load_json r archive_path = Inr (JObj kvs)" and "faults r archive_path = None"
  shows "run_analysis r parse now self c w today =
    (let rep = fst (generate_report self c w (fst (fetch_news parse now (feed_urls xs))))
     in (Inr (stored r archive_path (JObj (jassign kvs today (JStr rep))) (''New report for '' @ today),
              Report today rep),
         world (snd (generate_report self c w (fst (fetch_news parse now (feed_urls xs)))))))"
  using assms by (simp add: run_analysis_def save_json_ok Let_def split: prod.splits)

lemma newsroom_frame:
  assumes "repo_wf r"
  shows "repo_wf (snd (newsroom r)) \<and>
    (\<forall>p. p \<noteq> stats_path \<longrightarrow> load_json (snd (newsroom r)) p = load_json r p)"
  using newsroom_writes [of r]
proof
  assume "snd (newsroom r) = r"
  with assms show ?thesis by simp
next
  assume "\<exists>d m. save_json r stats_path d m = Inr (snd (newsroom r))"
  then obtain d m where "save_json r stats_path d m = Inr (snd (newsroom r))" by blast
  with assms show ?thesis by (simp add: save_json_wf load_json_after_save)
qed

section \<open>Properties of the application\<close>

text \<open>
  C22. Invariant of the stored feed list: from a well-formed repository whose feed list
  is a list of distinct non-empty urls, every sequence of page runs (views, additions,
  deletions, analysis runs, failing or not) keeps the repository well formed and the feed
  list such a list.
\<close>

theorem app_run_invariant:
  assumes "repo_wf r" and "feeds_inv r" and "app_run self c secrets env (r, w) evs = (r', w')"
  shows "repo_wf r' \<and> feeds_inv r'"
  using assms
proof (induction evs arbitrary: r w)
  case Nil
  then show ?case by (simp add: app_run_def)
next
  case (Cons ev evs)
  obtain r1 w1 where s: "app_step self c secrets env (r, w) ev = (r1, w1)" by fastforce
  from app_step_inv [OF Cons.prems(1,2) s] have "repo_wf r1" "feeds_inv r1" by auto
  with Cons.IH Cons.prems(3) s show ?case by (simp add: app_run_Cons)
qed

text \<open>
  C23. The view counter: with a statistics object holding an integer count \<open>n\<close> and no
  fault on its file, \<open>update_view_count\<close> returns \<open>n + 1\<close>, stores the object with
  the count replaced, and leaves every other file as it was.
\<close>

theorem update_view_count_increments:
  assumes "repo_wf r" and "faults r stats_path = None"
    and "load_json r stats_path = Inr (JObj kvs)" and "jlookup kvs ''total_views'' = Some (JInt n)"
  shows "\<exists>r'. update_view_count r = Inr (r', n + 1) \<and>
    load_json r' stats_path = Inr (JObj (jassign kvs ''total_views'' (JInt (n + 1)))) \<and>
    (\<forall>q. q \<noteq> stats_path \<longrightarrow> load_json r' q = load_json r q)"
proof -
  let ?d = "JObj (jassign kvs ''total_views'' (JInt (n + 1)))"
  have s: "save_json r stats_path ?d ''Increment view count'' =
      Inr (stored r stats_path ?d ''Increment view count'')"
    using assms(2) by (rule save_json_ok)
  from update_view_count_ok [OF assms] s assms(1) show ?thesis
    by (simp add: load_json_after_save)
qed

text \<open>
  C24. Sequential views count exactly: when no file has a fault, \<open>k\<close> views one after
  the other raise the stored count by \<open>k\<close>.
\<close>

theorem views_sequential:
  assumes "repo_wf r" and "\<forall>p. faults r p = None" and "views r = Some n"
  shows "views (fst (app_run self c secrets env (r, w) (replicate k View))) = Some (n + int k)"
  using assms
proof (induction k arbitrary: r n)
  case 0
  then show ?case by (simp add: app_run_def)
next
  case (Suc k)
  from view_step [OF Suc.prems(1) _ Suc.prems(3)] Suc.prems(2)
  have "repo_wf (snd (newsroom r))" "\<forall>p. faults (snd (newsroom r)) p = None"
    "views (snd (newsroom r)) = Some (n + 1)" by auto
  from Suc.IH [OF this] show ?case by (simp add: app_run_Cons add.assoc)
qed

text \<open>
  C25. The newsroom shows the latest report: the date displayed is a key of the archive
  greater than or equal to every other key (the keys are \<open>%Y-%m-%d %H:%M\<close> renderings,
  so the order of strings is the order of time), and the report shown is the one stored
  under it.
\<close>

theorem newsroom_shows_latest:
  assumes "fst (newsroom r) = Inr (n, Some (d, v))"
  shows "\<exists>kvs. load_json (snd (newsroom r)) archive_path = Inr (JObj kvs) \<and>
    d \<in> set (map fst kvs) \<and> (\<forall>k \<in> set (map fst kvs). k \<le> d) \<and> jlookup kvs d = Some v"
proof -
  from assms obtain r' kvs where u: "update_view_count r = Inr (r', n)"
    and l: "load_json r' archive_path = Inr (JObj kvs)" and ne: "kvs \<noteq> []"
    and d: "d = last (sort (map fst kvs))" and v: "v = the (jlookup kvs d)"
    by (auto simp: newsroom_def Let_def hd_rev split: sum.splits json.splits if_splits)
  from ne have "map fst kvs \<noteq> []" by simp
  from sort_last_max [OF this] d have k: "d \<in> set (map fst kvs)" "\<forall>k \<in> set (map fst kvs). k \<le> d"
    by auto
  then have "jlookup kvs d = Some v"
    using v by (auto simp: jlookup_def dest: weak_map_of_SomeI)
  with k l u show ?thesis by (auto simp: newsroom_store)
qed

text \<open>
  C26. The analysis run composes the collector and the reporter: with a non-empty feed
  list and an archive object, the report written by \<open>generate_report\<close> for the items
  \<open>fetch_news\<close> collects from the feed urls is stored in the archive under the run's
  minute, with one commit, and no other file changes.
\<close>

theorem run_analysis_pipeline:
  assumes "repo_wf r" and "load_json r feeds_path = Inr (JList xs)" and "xs \<noteq> []"
    and "load_json r archive_path = Inr (JObj kvs)" and "faults r archive_path = None"
  shows "\<exists>r'. fst (run_analysis r parse now self c w today) =
      Inr (r', Report today (fst (generate_report self c w (fst (fetch_news parse now (feed_urls xs)))))) \<and>
    load_json r' archive_path =
      Inr (JObj (jassign kvs today
        (JStr (fst (generate_report self c w (fst (fetch_news parse now (feed_urls xs)))))))) \<and>
    (\<forall>q. q \<noteq> archive_path \<longrightarrow> load_json r' q = load_json r q) \<and>
    commits r' = commits r @ [(archive_path, ''New report for '' @ today)]"
proof -
  let ?rep = "fst (generate_report self c w (fst (fetch_news parse now (feed_urls xs))))"
  let ?d = "JObj (jassign kvs today (JStr ?rep))"
  have s: "save_json r archive_path ?d (''New report for '' @ today) =
      Inr (stored r archive_path ?d (''New report for '' @ today))"
    using assms(5) by (rule save_json_ok)
  from run_analysis_ok [OF assms(2-5), of parse now self c w today] s assms(1) show ?thesis
    by (simp add: Let_def load_json_after_save) (simp add: stored_def)
qed

text \<open>
  C27. Two runs within the same minute: the second report replaces the first under the
  same archive key, and the first leaves no trace in the archive.
\<close>

theorem run_same_minute_overwrites:
  assumes "repo_wf r" and "load_json r feeds_path = Inr (JList xs)" and "xs \<noteq> []"
    and "load_json r archive_path = Inr (JObj kvs)" and "faults r archive_path = None"
    and "fst (run_analysis r parse now self c w today) = Inr (r1, out1)"
    and "fst (run_analysis r1 parse' now' self c w' today) = Inr (r2, Report today rep2)"
  shows "load_json r2 archive_path = Inr (JObj (jassign kvs today (JStr rep2)))"
proof -
  let ?rep1 = "fst (generate_report self c w (fst (fetch_news parse now (feed_urls xs))))"
  let ?d1 = "JObj (jassign kvs today (JStr ?rep1))"
  have s1: "save_json r archive_path ?d1 (''New report for '' @ today) =
      Inr (stored r archive_path ?d1 (''New report for '' @ today))"
    using assms(5) by (rule save_json_ok)
  from run_analysis_ok [OF assms(2-5), of parse now self c w today] assms(6)
  have r1: "r1 = stored r archive_path ?d1 (''New report for '' @ today)"
    by (simp add: Let_def)
  have wf1: "repo_wf r1" using s1 assms(1) r1 by (simp add: save_json_wf)
  have f1: "load_json r1 feeds_path = Inr (JList xs)"
    and a1: "load_json r1 archive_path = Inr ?d1"
    and e1: "faults r1 archive_path = None"
    using assms(1,2,5) s1 r1 by (simp_all add: load_json_after_save) (simp add: stored_def)
  let ?rep2 = "fst (generate_report self c w' (fst (fetch_news parse' now' (feed_urls xs))))"
  let ?d2 = "JObj (jassign (jassign kvs today (JStr ?rep1)) today (JStr ?rep2))"
  have s2: "save_json r1 archive_path ?d2 (''New report for '' @ today) =
      Inr (stored r1 archive_path ?d2 (''New report for '' @ today))"
    using e1 by (rule save_json_ok)
  from run_analysis_ok [OF f1 assms(3) a1 e1, of parse' now' self c w' today] assms(7)
  have "r2 = stored r1 archive_path ?d2 (''New report for '' @ today) \<and> rep2 = ?rep2"
    by (simp add: Let_def) (metis jassign_twice)
  with s2 wf1 show ?thesis by (simp add: load_json_after_save)
qed

text \<open>
  C31. The password gate: in a sequence of page runs where no dashboard run was given
  the expected password, nothing but the view counter changes: every other file loads as
  before, and the model backend was never called.
\<close>

theorem gate_blocks_dashboard:
  assumes "repo_wf r" and "\<forall>pw a. Dashboard pw a \<in> set evs \<longrightarrow> \<not> admin_ok pw secrets env"
    and "app_run self c secrets env (r, w) evs = (r', w')"
  shows "w' = w \<and> (\<forall>p. p \<noteq> stats_path \<longrightarrow> load_json r' p = load_json r p)"
  using assms
proof (induction evs arbitrary: r)
  case Nil
  then show ?case by (simp add: app_run_def)
next
  case (Cons ev evs)
  show ?case
  proof (cases ev)
    case View
    from newsroom_frame [OF Cons.prems(1)]
    have "repo_wf (snd (newsroom r))"
      and f: "\<forall>p. p \<noteq> stats_path \<longrightarrow> load_json (snd (newsroom r)) p = load_json r p" by auto
    from Cons.IH [OF this(1)] Cons.prems(2,3) View f show ?thesis by (simp add: app_run_Cons)
  next
    case (Dashboard pw a)
    with Cons.prems(2) have "\<not> admin_ok pw secrets env" by simp
    with Cons.IH [OF Cons.prems(1)] Cons.prems(2,3) Dashboard show ?thesis
      by (simp add: app_run_Cons)
  qed
qed

text \<open>
  C32. The built-in password: when \<open>ADMIN_PASSWORD\<close> is set neither in the secrets nor
  in the environment, typing \<open>admin123\<close> opens every dashboard action.
\<close>

theorem default_admin_password:
  assumes "secrets ''ADMIN_PASSWORD'' = None" and "env ''ADMIN_PASSWORD'' = None"
  shows "app_step self c secrets env s (Dashboard ''admin123'' a) = dashboard self c s a"
  using assms by (simp add: admin_ok_def admin_password_def)

section \<open>Witnesses\<close>

text \<open>
  The concrete runs below start from an empty repository or from one holding a feed list
  with one url; the backend lists no model and answers every call with the text
  \<open>report\<close>; the one feed has an entry published at second 100.
\<close>

lemmas app_eval = load_json_def get_contents_def default_for_def save_json_def create_file_def
  update_file_def stats_path_def feeds_path_def archive_path_def jlookup_def jassign_def


lemma rep_eval:
  "fst (generate_report \<lparr>api_key = ''k'', candidate_models = [''A'']\<rparr>
      \<lparr>models_list = \<lambda>w. (Inl ''unavailable'', w), generate_content = \<lambda>w a p. (Response (Some ''report''), w)\<rparr>
      (0::nat)
      (fst (fetch_news (\<lambda>u. Inr \<lparr>feed_title = Some ''T'', entries =
         [\<lparr>entry_title = Some ''x'', entry_link = Some ''l'', entry_summary = None,
           published_parsed = Some 100, updated_parsed = None\<rparr>]\<rparr>) 200000000
        [''a'']))) = ''report''"
  by (simp add: generate_report_def discover_def actual_ids_def try_ids.simps
      collector_eval feed_urls_def Let_def)

lemma run_witness_facts:
  "repo_wf \<lparr>files = [''data/feeds.json'' \<mapsto> \<lparr>content = JList [JStr ''a''], sha = 0\<rparr>], faults = Map.empty, next_sha = 1, commits = []\<rparr>"
  "load_json \<lparr>files = [''data/feeds.json'' \<mapsto> \<lparr>content = JList [JStr ''a''], sha = 0\<rparr>], faults = Map.empty, next_sha = 1, commits = []\<rparr> feeds_path = Inr (JList [JStr ''a''])"
  "load_json \<lparr>files = [''data/feeds.json'' \<mapsto> \<lparr>content = JList [JStr ''a''], sha = 0\<rparr>], faults = Map.empty, next_sha = 1, commits = []\<rparr> archive_path = Inr (JObj [])"
  "faults \<lparr>files = [''data/feeds.json'' \<mapsto> \<lparr>content = JList [JStr ''a''], sha = 0\<rparr>], faults = Map.empty, next_sha = 1, commits = []\<rparr> archive_path = None"
  "fst (fetch_news (\<lambda>u. Inr \<lparr>feed_title = Some ''T'', entries = [\<lparr>entry_title = Some ''x'', entry_link = Some ''l'', entry_summary = None, published_parsed = Some 100, updated_parsed = None\<rparr>]\<rparr>) 345600000000 [''a'']) = []"
  by (simp_all add: repo_wf_def app_eval collector_eval feed_urls_def)

theorem app_run_invariant_witness:
  "repo_wf (fst (app_run \<lparr>api_key = ''k'', candidate_models = [''A'']\<rparr>
      \<lparr>models_list = \<lambda>w. (Inl ''unavailable'', w), generate_content = \<lambda>w a p. (Response None, w)\<rparr> Map.empty Map.empty
      (\<lparr>files = Map.empty, faults = Map.empty, next_sha = 0, commits = []\<rparr>, 0::nat)
      [View, Dashboard ''admin123'' (AddFeed ''u''), Dashboard ''admin123'' (AddFeed ''u''),
       Dashboard ''admin123'' (DeleteFeed 0)])) \<and>
   feeds_inv (fst (app_run \<lparr>api_key = ''k'', candidate_models = [''A'']\<rparr>
      \<lparr>models_list = \<lambda>w. (Inl ''unavailable'', w), generate_content = \<lambda>w a p. (Response None, w)\<rparr> Map.empty Map.empty
      (\<lparr>files = Map.empty, faults = Map.empty, next_sha = 0, commits = []\<rparr>, 0::nat)
      [View, Dashboard ''admin123'' (AddFeed ''u''), Dashboard ''admin123'' (AddFeed ''u''),
       Dashboard ''admin123'' (DeleteFeed 0)]))"
proof -
  have w: "repo_wf \<lparr>files = Map.empty, faults = Map.empty, next_sha = 0, commits = []\<rparr>"
    by (simp add: repo_wf_def)
  have f: "feeds_inv \<lparr>files = Map.empty, faults = Map.empty, next_sha = 0, commits = []\<rparr>"
    by (simp add: feeds_inv_def feeds_ok_def app_eval)
  show ?thesis by (rule app_run_invariant [OF w f surjective_pairing])
qed

theorem update_view_count_increments_witness:
  "\<exists>r'. update_view_count \<lparr>files = Map.empty, faults = Map.empty, next_sha = 0, commits = []\<rparr> =
      Inr (r', 1) \<and>
    load_json r' ''data/stats.json'' = Inr (JObj [(''total_views'', JInt 1)]) \<and>
    load_json r' ''data/feeds.json'' = Inr (JList [])"
proof -
  have w: "repo_wf \<lparr>files = Map.empty, faults = Map.empty, next_sha = 0, commits = []\<rparr>"
    by (simp add: repo_wf_def)
  have e: "faults \<lparr>files = Map.empty, faults = Map.empty, next_sha = 0, commits = []\<rparr> stats_path = None"
    by simp
  have l: "load_json \<lparr>files = Map.empty, faults = Map.empty, next_sha = 0, commits = []\<rparr> stats_path =
      Inr (JObj [(''total_views'', JInt 0)])"
    by (simp add: app_eval)
  have t: "jlookup [(''total_views'', JInt 0)] ''total_views'' = Some (JInt 0)"
    by (simp add: jlookup_def)
  have q: "''data/feeds.json'' \<noteq> stats_path" by (simp add: stats_path_def)
  from update_view_count_increments [OF w e l t] q show ?thesis
    by (auto simp: app_eval)
qed

theorem views_sequential_witness:
  "views (fst (app_run \<lparr>api_key = ''k'', candidate_models = [''A'']\<rparr>
      \<lparr>models_list = \<lambda>w. (Inl ''unavailable'', w), generate_content = \<lambda>w a p. (Response None, w)\<rparr> Map.empty Map.empty
      (\<lparr>files = Map.empty, faults = Map.empty, next_sha = 0, commits = []\<rparr>, 0::nat)
      (replicate 3 View))) = Some 3"
proof -
  have w: "repo_wf \<lparr>files = Map.empty, faults = Map.empty, next_sha = 0, commits = []\<rparr>"
    by (simp add: repo_wf_def)
  have e: "\<forall>p. faults \<lparr>files = Map.empty, faults = Map.empty, next_sha = 0, commits = []\<rparr> p = None"
    by simp
  have v: "views \<lparr>files = Map.empty, faults = Map.empty, next_sha = 0, commits = []\<rparr> = Some 0"
    by (simp add: views_def app_eval)
  from views_sequential [OF w e v, where w = 0 and k = 3] show ?thesis by simp
qed

theorem newsroom_shows_latest_witness:
  "fst (newsroom \<lparr>files = [''data/news_archive.json'' \<mapsto>
        \<lparr>content = JObj [(''2024-01-01 09:00'', JStr ''a''), (''2024-01-02 10:00'', JStr ''b''),
                         (''2023-12-31 23:59'', JStr ''c'')], sha = 0\<rparr>],
      faults = Map.empty, next_sha = 1, commits = []\<rparr>) = Inr (1, Some (''2024-01-02 10:00'', JStr ''b'')) \<and>
   (\<exists>kvs. load_json (snd (newsroom \<lparr>files = [''data/news_archive.json'' \<mapsto>
        \<lparr>content = JObj [(''2024-01-01 09:00'', JStr ''a''), (''2024-01-02 10:00'', JStr ''b''),
                         (''2023-12-31 23:59'', JStr ''c'')], sha = 0\<rparr>],
      faults = Map.empty, next_sha = 1, commits = []\<rparr>)) ''data/news_archive.json'' = Inr (JObj kvs) \<and>
    ''2024-01-02 10:00'' \<in> set (map fst kvs) \<and> (\<forall>k \<in> set (map fst kvs). k \<le> ''2024-01-02 10:00'') \<and>
    jlookup kvs ''2024-01-02 10:00'' = Some (JStr ''b''))"
proof -
  have n: "fst (newsroom \<lparr>files = [''data/news_archive.json'' \<mapsto>
        \<lparr>content = JObj [(''2024-01-01 09:00'', JStr ''a''), (''2024-01-02 10:00'', JStr ''b''),
                         (''2023-12-31 23:59'', JStr ''c'')], sha = 0\<rparr>],
      faults = Map.empty, next_sha = 1, commits = []\<rparr>) = Inr (1, Some (''2024-01-02 10:00'', JStr ''b''))"
    by (simp add: newsroom_def update_view_count_def app_eval)
  from newsroom_shows_latest [OF n] n show ?thesis by (simp add: archive_path_def)
qed

theorem run_analysis_pipeline_witness:
  "\<exists>r'. fst (run_analysis \<lparr>files = [''data/feeds.json'' \<mapsto> \<lparr>content = JList [JStr ''a''], sha = 0\<rparr>], faults = Map.empty, next_sha = 1, commits = []\<rparr>
      (\<lambda>u. Inr \<lparr>feed_title = Some ''T'', entries = [\<lparr>entry_title = Some ''x'', entry_link = Some ''l'', entry_summary = None, published_parsed = Some 100, updated_parsed = None\<rparr>]\<rparr>) 200000000 \<lparr>api_key = ''k'', candidate_models = [''A'']\<rparr>
      \<lparr>models_list = \<lambda>w. (Inl ''unavailable'', w), generate_content = \<lambda>w a p. (Response (Some ''report''), w)\<rparr> (0::nat) ''2024-01-01 09:00'') = Inr (r', Report ''2024-01-01 09:00'' ''report'') \<and>
    load_json r' ''data/news_archive.json'' = Inr (JObj [(''2024-01-01 09:00'', JStr ''report'')]) \<and>
    load_json r' ''data/feeds.json'' = Inr (JList [JStr ''a''])"
  using run_analysis_pipeline [OF run_witness_facts(1,2) _ run_witness_facts(3,4),
      where parse = "(\<lambda>u. Inr \<lparr>feed_title = Some ''T'', entries = [\<lparr>entry_title = Some ''x'', entry_link = Some ''l'', entry_summary = None, published_parsed = Some 100, updated_parsed = None\<rparr>]\<rparr>)" and now = 200000000 and self = "\<lparr>api_key = ''k'', candidate_models = [''A'']\<rparr>" and c = "\<lparr>models_list = \<lambda>w. (Inl ''unavailable'', w), generate_content = \<lambda>w a p. (Response (Some ''report''), w)\<rparr>" and w = "0::nat"
      and today = "''2024-01-01 09:00''"] rep_eval run_witness_facts(2)
  by (auto simp: feeds_path_def archive_path_def jassign_def feed_urls_def)

theorem run_same_minute_overwrites_witness:
  "fst (run_analysis \<lparr>files = [''data/feeds.json'' \<mapsto> \<lparr>content = JList [JStr ''a''], sha = 0\<rparr>], faults = Map.empty, next_sha = 1, commits = []\<rparr>
      (\<lambda>u. Inr \<lparr>feed_title = Some ''T'', entries = [\<lparr>entry_title = Some ''x'', entry_link = Some ''l'', entry_summary = None, published_parsed = Some 100, updated_parsed = None\<rparr>]\<rparr>) 345600000000 \<lparr>api_key = ''k'', candidate_models = [''A'']\<rparr> \<lparr>models_list = \<lambda>w. (Inl ''unavailable'', w), generate_content = \<lambda>w a p. (Response (Some ''report''), w)\<rparr> (0::nat) ''2024-01-01 09:00'') =
     Inr ((stored \<lparr>files = [''data/feeds.json'' \<mapsto> \<lparr>content = JList [JStr ''a''], sha = 0\<rparr>], faults = Map.empty, next_sha = 1, commits = []\<rparr> ''data/news_archive.json'' (JObj [(''2024-01-01 09:00'', JStr no_news_msg)]) (''New report for '' @ ''2024-01-01 09:00'')), Report ''2024-01-01 09:00'' no_news_msg) \<and>
   fst (run_analysis (stored \<lparr>files = [''data/feeds.json'' \<mapsto> \<lparr>content = JList [JStr ''a''], sha = 0\<rparr>], faults = Map.empty, next_sha = 1, commits = []\<rparr> ''data/news_archive.json'' (JObj [(''2024-01-01 09:00'', JStr no_news_msg)]) (''New report for '' @ ''2024-01-01 09:00''))
      (\<lambda>u. Inr \<lparr>feed_title = Some ''T'', entries = [\<lparr>entry_title = Some ''x'', entry_link = Some ''l'', entry_summary = None, published_parsed = Some 100, updated_parsed = None\<rparr>]\<rparr>) 200000000 \<lparr>api_key = ''k'', candidate_models = [''A'']\<rparr> \<lparr>models_list = \<lambda>w. (Inl ''unavailable'', w), generate_content = \<lambda>w a p. (Response (Some ''report''), w)\<rparr> (0::nat) ''2024-01-01 09:00'') =
     Inr ((stored (stored \<lparr>files = [''data/feeds.json'' \<mapsto> \<lparr>content = JList [JStr ''a''], sha = 0\<rparr>], faults = Map.empty, next_sha = 1, commits = []\<rparr> ''data/news_archive.json'' (JObj [(''2024-01-01 09:00'', JStr no_news_msg)]) (''New report for '' @ ''2024-01-01 09:00'')) ''data/news_archive.json'' (JObj [(''2024-01-01 09:00'', JStr ''report'')]) (''New report for '' @ ''2024-01-01 09:00'')), Report ''2024-01-01 09:00'' ''report'') \<and>
   load_json (stored (stored \<lparr>files = [''data/feeds.json'' \<mapsto> \<lparr>content = JList [JStr ''a''], sha = 0\<rparr>], faults = Map.empty, next_sha = 1, commits = []\<rparr> ''data/news_archive.json'' (JObj [(''2024-01-01 09:00'', JStr no_news_msg)]) (''New report for '' @ ''2024-01-01 09:00'')) ''data/news_archive.json'' (JObj [(''2024-01-01 09:00'', JStr ''report'')]) (''New report for '' @ ''2024-01-01 09:00'')) ''data/news_archive.json'' = Inr (JObj [(''2024-01-01 09:00'', JStr ''report'')])"
proof -
  have g1: "generate_report \<lparr>api_key = ''k'', candidate_models = [''A'']\<rparr> \<lparr>models_list = \<lambda>w. (Inl ''unavailable'', w), generate_content = \<lambda>w a p. (Response (Some ''report''), w)\<rparr> (0::nat)
      (fst (fetch_news (\<lambda>u. Inr \<lparr>feed_title = Some ''T'', entries = [\<lparr>entry_title = Some ''x'', entry_link = Some ''l'', entry_summary = None, published_parsed = Some 100, updated_parsed = None\<rparr>]\<rparr>) 345600000000 [''a''])) =
    (no_news_msg, \<lparr>world = 0, last_error = None, calls = []\<rparr>)"
    using run_witness_facts(5) by (simp add: generate_report_def)
  have h1: "fst (run_analysis \<lparr>files = [''data/feeds.json'' \<mapsto> \<lparr>content = JList [JStr ''a''], sha = 0\<rparr>], faults = Map.empty, next_sha = 1, commits = []\<rparr>
      (\<lambda>u. Inr \<lparr>feed_title = Some ''T'', entries = [\<lparr>entry_title = Some ''x'', entry_link = Some ''l'', entry_summary = None, published_parsed = Some 100, updated_parsed = None\<rparr>]\<rparr>) 345600000000 \<lparr>api_key = ''k'', candidate_models = [''A'']\<rparr> \<lparr>models_list = \<lambda>w. (Inl ''unavailable'', w), generate_content = \<lambda>w a p. (Response (Some ''report''), w)\<rparr> (0::nat) ''2024-01-01 09:00'') =
     Inr ((stored \<lparr>files = [''data/feeds.json'' \<mapsto> \<lparr>content = JList [JStr ''a''], sha = 0\<rparr>], faults = Map.empty, next_sha = 1, commits = []\<rparr> ''data/news_archive.json'' (JObj [(''2024-01-01 09:00'', JStr no_news_msg)]) (''New report for '' @ ''2024-01-01 09:00'')), Report ''2024-01-01 09:00'' no_news_msg)"
    using g1 run_analysis_ok [OF run_witness_facts(2) _ run_witness_facts(3,4),
      where parse = "(\<lambda>u. Inr \<lparr>feed_title = Some ''T'', entries = [\<lparr>entry_title = Some ''x'', entry_link = Some ''l'', entry_summary = None, published_parsed = Some 100, updated_parsed = None\<rparr>]\<rparr>)" and now = "345600000000" and self = "\<lparr>api_key = ''k'', candidate_models = [''A'']\<rparr>" and c = "\<lparr>models_list = \<lambda>w. (Inl ''unavailable'', w), generate_content = \<lambda>w a p. (Response (Some ''report''), w)\<rparr>" and w = "0::nat"
      and today = "''2024-01-01 09:00''"]
    by (simp add: archive_path_def jassign_def feed_urls_def Let_def)
  have f1: "load_json (stored \<lparr>files = [''data/feeds.json'' \<mapsto> \<lparr>content = JList [JStr ''a''], sha = 0\<rparr>], faults = Map.empty, next_sha = 1, commits = []\<rparr> ''data/news_archive.json'' (JObj [(''2024-01-01 09:00'', JStr no_news_msg)]) (''New report for '' @ ''2024-01-01 09:00'')) feeds_path = Inr (JList [JStr ''a''])"
    "load_json (stored \<lparr>files = [''data/feeds.json'' \<mapsto> \<lparr>content = JList [JStr ''a''], sha = 0\<rparr>], faults = Map.empty, next_sha = 1, commits = []\<rparr> ''data/news_archive.json'' (JObj [(''2024-01-01 09:00'', JStr no_news_msg)]) (''New report for '' @ ''2024-01-01 09:00'')) archive_path = Inr (JObj [(''2024-01-01 09:00'', JStr no_news_msg)])"
    "faults (stored \<lparr>files = [''data/feeds.json'' \<mapsto> \<lparr>content = JList [JStr ''a''], sha = 0\<rparr>], faults = Map.empty, next_sha = 1, commits = []\<rparr> ''data/news_archive.json'' (JObj [(''2024-01-01 09:00'', JStr no_news_msg)]) (''New report for '' @ ''2024-01-01 09:00'')) archive_path = None"
    by (simp_all add: stored_def app_eval)
  have h2: "fst (run_analysis (stored \<lparr>files = [''data/feeds.json'' \<mapsto> \<lparr>content = JList [JStr ''a''], sha = 0\<rparr>], faults = Map.empty, next_sha = 1, commits = []\<rparr> ''data/news_archive.json'' (JObj [(''2024-01-01 09:00'', JStr no_news_msg)]) (''New report for '' @ ''2024-01-01 09:00''))
      (\<lambda>u. Inr \<lparr>feed_title = Some ''T'', entries = [\<lparr>entry_title = Some ''x'', entry_link = Some ''l'', entry_summary = None, published_parsed = Some 100, updated_parsed = None\<rparr>]\<rparr>) 200000000 \<lparr>api_key = ''k'', candidate_models = [''A'']\<rparr> \<lparr>models_list = \<lambda>w. (Inl ''unavailable'', w), generate_content = \<lambda>w a p. (Response (Some ''report''), w)\<rparr> (0::nat) ''2024-01-01 09:00'') =
     Inr ((stored (stored \<lparr>files = [''data/feeds.json'' \<mapsto> \<lparr>content = JList [JStr ''a''], sha = 0\<rparr>], faults = Map.empty, next_sha = 1, commits = []\<rparr> ''data/news_archive.json'' (JObj [(''2024-01-01 09:00'', JStr no_news_msg)]) (''New report for '' @ ''2024-01-01 09:00'')) ''data/news_archive.json'' (JObj [(''2024-01-01 09:00'', JStr ''report'')]) (''New report for '' @ ''2024-01-01 09:00'')), Report ''2024-01-01 09:00'' ''report'')"
    using rep_eval run_analysis_ok [OF f1(1) _ f1(2,3),
      where parse = "(\<lambda>u. Inr \<lparr>feed_title = Some ''T'', entries = [\<lparr>entry_title = Some ''x'', entry_link = Some ''l'', entry_summary = None, published_parsed = Some 100, updated_parsed = None\<rparr>]\<rparr>)" and now = 200000000 and self = "\<lparr>api_key = ''k'', candidate_models = [''A'']\<rparr>" and c = "\<lparr>models_list = \<lambda>w. (Inl ''unavailable'', w), generate_content = \<lambda>w a p. (Response (Some ''report''), w)\<rparr>" and w = "0::nat"
      and today = "''2024-01-01 09:00''"]
    by (simp add: archive_path_def jassign_def feed_urls_def Let_def)
  have "load_json (stored (stored \<lparr>files = [''data/feeds.json'' \<mapsto> \<lparr>content = JList [JStr ''a''], sha = 0\<rparr>], faults = Map.empty, next_sha = 1, commits = []\<rparr> ''data/news_archive.json'' (JObj [(''2024-01-01 09:00'', JStr no_news_msg)]) (''New report for '' @ ''2024-01-01 09:00'')) ''data/news_archive.json'' (JObj [(''2024-01-01 09:00'', JStr ''report'')]) (''New report for '' @ ''2024-01-01 09:00'')) archive_path = Inr (JObj (jassign [] ''2024-01-01 09:00'' (JStr ''report'')))"
    by (rule run_same_minute_overwrites [OF run_witness_facts(1,2) _ run_witness_facts(3,4) h1 h2]) simp
  with h1 h2 show ?thesis by (simp add: archive_path_def jassign_def feed_urls_def Let_def)
qed

text \<open>A visitor who guesses a wrong password, then one who types the built-in one.\<close>

theorem gate_blocks_dashboard_witness:
  "snd (app_run \<lparr>api_key = ''k'', candidate_models = [''A'']\<rparr> \<lparr>models_list = \<lambda>w. (Inl ''unavailable'', w), generate_content = \<lambda>w a p. (Response (Some ''report''), w)\<rparr> Map.empty Map.empty (\<lparr>files = [''data/feeds.json'' \<mapsto> \<lparr>content = JList [JStr ''a''], sha = 0\<rparr>], faults = Map.empty, next_sha = 1, commits = []\<rparr>, 0::nat)
     [View, Dashboard ''guess'' (DeleteFeed 0)]) = 0 \<and>
   load_json (fst (app_run \<lparr>api_key = ''k'', candidate_models = [''A'']\<rparr> \<lparr>models_list = \<lambda>w. (Inl ''unavailable'', w), generate_content = \<lambda>w a p. (Response (Some ''report''), w)\<rparr> Map.empty Map.empty (\<lparr>files = [''data/feeds.json'' \<mapsto> \<lparr>content = JList [JStr ''a''], sha = 0\<rparr>], faults = Map.empty, next_sha = 1, commits = []\<rparr>, 0::nat)
     [View, Dashboard ''guess'' (DeleteFeed 0)])) ''data/feeds.json'' = Inr (JList [JStr ''a''])"
proof -
  have g: "\<forall>pw a. Dashboard pw a \<in> set [View, Dashboard ''guess'' (DeleteFeed 0)] \<longrightarrow>
      \<not> admin_ok pw Map.empty Map.empty"
    by (simp add: admin_ok_def admin_password_def)
  have "''data/feeds.json'' \<noteq> stats_path" by (simp add: stats_path_def)
  with gate_blocks_dashboard [OF run_witness_facts(1) g surjective_pairing,
      where self = "\<lparr>api_key = ''k'', candidate_models = [''A'']\<rparr>" and c = "\<lparr>models_list = \<lambda>w. (Inl ''unavailable'', w), generate_content = \<lambda>w a p. (Response (Some ''report''), w)\<rparr>" and w = "0::nat"] run_witness_facts(2)
  show ?thesis by (simp add: feeds_path_def)
qed

theorem default_admin_password_witness:
  "app_step \<lparr>api_key = ''k'', candidate_models = [''A'']\<rparr> \<lparr>models_list = \<lambda>w. (Inl ''unavailable'', w), generate_content = \<lambda>w a p. (Response (Some ''report''), w)\<rparr> Map.empty Map.empty (\<lparr>files = [''data/feeds.json'' \<mapsto> \<lparr>content = JList [JStr ''a''], sha = 0\<rparr>], faults = Map.empty, next_sha = 1, commits = []\<rparr>, 0::nat) (Dashboard ''admin123'' (DeleteFeed 0)) =
   (stored \<lparr>files = [''data/feeds.json'' \<mapsto> \<lparr>content = JList [JStr ''a''], sha = 0\<rparr>], faults = Map.empty, next_sha = 1, commits = []\<rparr> ''data/feeds.json'' (JList []) ''Delete feed: a'', 0)"
proof -
  have "app_step \<lparr>api_key = ''k'', candidate_models = [''A'']\<rparr> \<lparr>models_list = \<lambda>w. (Inl ''unavailable'', w), generate_content = \<lambda>w a p. (Response (Some ''report''), w)\<rparr> Map.empty Map.empty (\<lparr>files = [''data/feeds.json'' \<mapsto> \<lparr>content = JList [JStr ''a''], sha = 0\<rparr>], faults = Map.empty, next_sha = 1, commits = []\<rparr>, 0::nat) (Dashboard ''admin123'' (DeleteFeed 0)) =
      dashboard \<lparr>api_key = ''k'', candidate_models = [''A'']\<rparr> \<lparr>models_list = \<lambda>w. (Inl ''unavailable'', w), generate_content = \<lambda>w a p. (Response (Some ''report''), w)\<rparr> (\<lparr>files = [''data/feeds.json'' \<mapsto> \<lparr>content = JList [JStr ''a''], sha = 0\<rparr>], faults = Map.empty, next_sha = 1, commits = []\<rparr>, 0::nat) (DeleteFeed 0)"
    by (rule default_admin_password) simp_all
  also have "\<dots> = (stored \<lparr>files = [''data/feeds.json'' \<mapsto> \<lparr>content = JList [JStr ''a''], sha = 0\<rparr>], faults = Map.empty, next_sha = 1, commits = []\<rparr> ''data/feeds.json'' (JList []) ''Delete feed: a'', 0)"
    by (simp add: delete_feed_def app_eval stored_def)
  finally show ?thesis .
qed

end
