(* ===== verification/Sessions.thy ===== *)
theory Sessions
  imports App
begin

text \<open>
  Concurrent sessions of the newsroom page. Streamlit runs the script of every browser
  session in its own thread, and the store is a remote repository, so the view counter of
  \<open>src/app.py\<close> (\<open>update_view_count\<close>, lines 23--27) runs in two phases that other
  sessions may interleave: the read of line 24 with the increment of line 25, and the save
  of line 26. \<open>save_json\<close> reads the current \<open>sha\<close> right before it updates, so the
  repository's version check never sees a conflict between the two phases. This theory
  gives the phases (and proves that run back to back they are \<open>update_view_count\<close>), the
  interleaving of any number of sessions as an inductive step relation and as an executable
  scheduler over a list of actions, the bounds every interleaving keeps, and the schedules
  that lose an update and make the counter go down. A second scheduler splits the save
  itself into its two calls (\<open>save_begin\<close>, \<open>save_finish\<close>), which shows why the
  version check cannot catch the lost update, and which overlaps raise 409 or 422.
\<close>

section \<open>The two phases of a view\<close>

text \<open>Lines 24--25: load the statistics and increment the count in the session's copy.\<close>

definition view_read :: "repo \<Rightarrow> app_error + (json \<times> int)" where
  "view_read r =
     (case load_json r stats_path of
        Inl e \<Rightarrow> Inl (StoreError e)
      | Inr (JObj kvs) \<Rightarrow>
          (case jlookup kvs ''total_views'' of
             None \<Rightarrow> Inl (KeyError ''total_views'')
           | Some v \<Rightarrow>
               (case py_incr v of
                  Inl e \<Rightarrow> Inl e
                | Inr n \<Rightarrow> Inr (JObj (jassign kvs ''total_views'' (JInt n)), n)))
      | Inr _ \<Rightarrow> Inl TypeError)"

text \<open>Line 26: save the session's copy.\<close>

definition view_write :: "repo \<Rightarrow> json \<Rightarrow> app_error + repo" where
  "view_write r d =
     (case save_json r stats_path d ''Increment view count'' of
        Inl e \<Rightarrow> Inl (StoreError e)
      | Inr r' \<Rightarrow> Inr r')"

section \<open>Interleaved sessions\<close>

text \<open>
  A session is idle, or has run line 25 and holds the statistics it will save and the
  count it will display. The system is the store, the sessions (numbered), and the number
  of views completed.
\<close>

datatype session = Idle | Loaded json int

record sys =
  store :: repo
  sessions :: "nat \<Rightarrow> session"
  writes :: nat

definition init_sys :: "repo \<Rightarrow> sys" where
  "init_sys r = \<lparr>store = r, sessions = (\<lambda>_. Idle), writes = 0\<rparr>"

inductive sstep :: "sys \<Rightarrow> sys \<Rightarrow> bool" where
  view_read_step: "sessions s i = Idle \<Longrightarrow> view_read (store s) = Inr (d, n) \<Longrightarrow>
    sstep s (s\<lparr>sessions := (sessions s)(i := Loaded d n)\<rparr>)"
| view_write_step: "sessions s i = Loaded d n \<Longrightarrow> view_write (store s) d = Inr r' \<Longrightarrow>
    sstep s (s\<lparr>store := r', sessions := (sessions s)(i := Idle), writes := Suc (writes s)\<rparr>)"

text \<open>The same steps, scheduled by an explicit list of actions.\<close>

datatype action = Read nat | Write nat

fun act :: "sys \<Rightarrow> action \<Rightarrow> sys option" where
  "act s (Read i) =
     (case sessions s i of
        Idle \<Rightarrow>
          (case view_read (store s) of
             Inl _ \<Rightarrow> None
           | Inr (d, n) \<Rightarrow> Some (s\<lparr>sessions := (sessions s)(i := Loaded d n)\<rparr>))
      | Loaded _ _ \<Rightarrow> None)"
| "act s (Write i) =
     (case sessions s i of
        Idle \<Rightarrow> None
      | Loaded d n \<Rightarrow>
          (case view_write (store s) d of
             Inl _ \<Rightarrow> None
           | Inr r' \<Rightarrow>
               Some (s\<lparr>store := r', sessions := (sessions s)(i := Idle),
                       writes := Suc (writes s)\<rparr>)))"

fun exec :: "sys \<Rightarrow> action list \<Rightarrow> sys option" where
  "exec s [] = Some s"
| "exec s (a # as) = (case act s a of None \<Rightarrow> None | Some s' \<Rightarrow> exec s' as)"

text \<open>
  The bounds on the stored count after views starting from the count \<open>n0\<close>: the count
  and every pending copy lie between \<open>n0\<close> and \<open>n0\<close> plus the views completed (plus one
  for a pending copy).
\<close>

definition count_inv :: "int \<Rightarrow> sys \<Rightarrow> bool" where
  "count_inv n0 s \<longleftrightarrow>
     repo_wf (store s) \<and> faults (store s) stats_path = None \<and>
     (\<exists>v. views (store s) = Some v \<and> n0 \<le> v \<and> v \<le> n0 + int (writes s)) \<and>
     (\<forall>i d m. sessions s i = Loaded d m \<longrightarrow>
        (\<exists>kvs. d = JObj (jassign kvs ''total_views'' (JInt m))) \<and>
        n0 + 1 \<le> m \<and> m \<le> n0 + int (writes s) + 1)"

section \<open>Sessions with the two calls of the save\<close>

text \<open>
  The same sessions, with the save of line 26 in its two calls (\<open>save_begin\<close>,
  \<open>save_finish\<close>), so that other sessions can run between the read of the \<open>sha\<close> and
  the update. A session between the two holds the \<open>sha\<close> it read (\<open>None\<close> when the
  file was missing). A call that raises ends the session's run: the error is recorded in
  \<open>raised\<close>, the view is not counted.
\<close>

datatype fsession = FIdle | FLoaded json int | FSaving json int "nat option"

record fsys =
  fstore :: repo
  fsessions :: "nat \<Rightarrow> fsession"
  fwrites :: nat
  raised :: "storage_error list"

definition finit :: "repo \<Rightarrow> fsys" where
  "finit r = \<lparr>fstore = r, fsessions = (\<lambda>_. FIdle), fwrites = 0, raised = []\<rparr>"

datatype faction = FRead nat | FBegin nat | FFinish nat

fun fact :: "fsys \<Rightarrow> faction \<Rightarrow> fsys option" where
  "fact s (FRead i) =
     (case fsessions s i of
        FIdle \<Rightarrow>
          (case view_read (fstore s) of
             Inl _ \<Rightarrow> None
           | Inr (d, n) \<Rightarrow> Some (s\<lparr>fsessions := (fsessions s)(i := FLoaded d n)\<rparr>))
      | _ \<Rightarrow> None)"
| "fact s (FBegin i) =
     (case fsessions s i of
        FLoaded d n \<Rightarrow>
          (case save_begin (fstore s) stats_path of
             Inl e \<Rightarrow> Some (s\<lparr>fsessions := (fsessions s)(i := FIdle), raised := raised s @ [e]\<rparr>)
           | Inr h \<Rightarrow> Some (s\<lparr>fsessions := (fsessions s)(i := FSaving d n h)\<rparr>))
      | _ \<Rightarrow> None)"
| "fact s (FFinish i) =
     (case fsessions s i of
        FSaving d n h \<Rightarrow>
          (case save_finish (fstore s) stats_path d ''Increment view count'' h of
             Inl e \<Rightarrow> Some (s\<lparr>fsessions := (fsessions s)(i := FIdle), raised := raised s @ [e]\<rparr>)
           | Inr r' \<Rightarrow>
               Some (s\<lparr>fstore := r', fsessions := (fsessions s)(i := FIdle),
                       fwrites := Suc (fwrites s)\<rparr>))
      | _ \<Rightarrow> None)"

fun fexec :: "fsys \<Rightarrow> faction list \<Rightarrow> fsys option" where
  "fexec s [] = Some s"
| "fexec s (a # as) = (case fact s a of None \<Rightarrow> None | Some s' \<Rightarrow> fexec s' as)"

section \<open>Lemmas\<close>

lemma view_read_views:
  "views r = Some v \<Longrightarrow>
   \<exists>kvs. view_read r = Inr (JObj (jassign kvs ''total_views'' (JInt (v + 1))), v + 1)"
  by (auto simp: views_def view_read_def split: sum.splits json.splits option.splits)

lemma write_pending:
  assumes "repo_wf r" and "faults r stats_path = None"
  shows "\<exists>r'. view_write r (JObj (jassign kvs ''total_views'' (JInt m))) = Inr r' \<and>
    repo_wf r' \<and> faults r' stats_path = None \<and> views r' = Some m"
proof -
  let ?d = "JObj (jassign kvs ''total_views'' (JInt m))"
  have s: "save_json r stats_path ?d ''Increment view count'' =
      Inr (stored r stats_path ?d ''Increment view count'')"
    using assms(2) by (rule save_json_ok)
  with assms show ?thesis
    by (simp add: view_write_def save_json_wf faults_save_json load_json_after_save views_def)
qed

lemma act_sstep: "act s a = Some s' \<Longrightarrow> sstep s s'"
  by (cases a) (auto split: session.splits sum.splits intro: sstep.intros)

lemma exec_reach: "exec s as = Some s' \<Longrightarrow> sstep\<^sup>*\<^sup>* s s'"
  by (induction s as rule: exec.induct)
    (auto split: option.splits intro: converse_rtranclp_into_rtranclp act_sstep)

lemma count_inv_init:
  "repo_wf r \<Longrightarrow> faults r stats_path = None \<Longrightarrow> views r = Some n0 \<Longrightarrow> count_inv n0 (init_sys r)"
  by (simp add: count_inv_def init_sys_def)

lemma count_inv_step:
  assumes "sstep s s'" and "count_inv n0 s"
  shows "count_inv n0 s'"
  using assms(1)
proof cases
  case (view_read_step i d n)
  from assms(2) obtain v where v: "views (store s) = Some v" "n0 \<le> v" "v \<le> n0 + int (writes s)"
    by (auto simp: count_inv_def)
  from view_read_views [OF v(1)] view_read_step(3) obtain kvs
    where "d = JObj (jassign kvs ''total_views'' (JInt (v + 1)))" and "n = v + 1" by auto
  with assms(2) v view_read_step(1) show ?thesis by (auto simp: count_inv_def)
next
  case (view_write_step i d n r')
  have wf: "repo_wf (store s)" "faults (store s) stats_path = None"
    and p: "(\<exists>kvs. d = JObj (jassign kvs ''total_views'' (JInt n))) \<and>
      n0 + 1 \<le> n \<and> n \<le> n0 + int (writes s) + 1"
    using assms(2) view_write_step(2) unfolding count_inv_def by blast+
  then obtain kvs where d: "d = JObj (jassign kvs ''total_views'' (JInt n))"
    and b: "n0 + 1 \<le> n" "n \<le> n0 + int (writes s) + 1" by blast
  from write_pending [OF wf, of kvs n] view_write_step(3) d
  have "repo_wf r'" "faults r' stats_path = None" "views r' = Some n" by auto
  with assms(2) b view_write_step(1) show ?thesis by (fastforce simp: count_inv_def)
qed

text \<open>The two phases run back to back are the handler, errors of either phase included.\<close>

lemma update_view_count_phases:
  "update_view_count r =
     (case view_read r of
        Inl e \<Rightarrow> Inl e
      | Inr (d, n) \<Rightarrow> (case view_write r d of Inl e \<Rightarrow> Inl e | Inr r' \<Rightarrow> Inr (r', n)))"
  by (simp add: update_view_count_def view_read_def view_write_def
      split: sum.splits json.splits option.splits)

text \<open>The scheduler and the step relation take the same steps.\<close>

lemma sstep_act: "sstep s s' \<longleftrightarrow> (\<exists>a. act s a = Some s')"
proof
  assume "sstep s s'"
  then show "\<exists>a. act s a = Some s'"
  proof cases
    case (view_read_step i d n)
    then show ?thesis by (intro exI [of _ "Read i"]) simp
  next
    case (view_write_step i d n r')
    then show ?thesis by (intro exI [of _ "Write i"]) simp
  qed
next
  assume "\<exists>a. act s a = Some s'"
  then obtain a where "act s a = Some s'" ..
  then show "sstep s s'" by (rule act_sstep)
qed

lemma save_begin_found:
  "faults r p = None \<Longrightarrow> files r p = Some f \<Longrightarrow> save_begin r p = Inr (Some (sha f))"
  by (simp add: save_begin_def get_contents_def)

lemma save_begin_missing:
  "faults r p = None \<Longrightarrow> files r p = None \<Longrightarrow> save_begin r p = Inr None"
  by (simp add: save_begin_def get_contents_def)

lemma save_finish_update:
  "files r p = Some f \<Longrightarrow> save_finish r p d m (Some (sha f)) = Inr (stored r p d m)"
  by (simp add: update_file_def stored_def)

lemma save_finish_create:
  "files r p = None \<Longrightarrow> save_finish r p d m None = Inr (stored r p d m)"
  by (simp add: create_file_def stored_def)

lemma stored_stats:
  assumes "repo_wf r" and "faults r stats_path = None"
  shows "repo_wf (stored r stats_path (JObj (jassign kvs ''total_views'' (JInt m))) msg) \<and>
    faults (stored r stats_path (JObj (jassign kvs ''total_views'' (JInt m))) msg) stats_path = None \<and>
    files (stored r stats_path (JObj (jassign kvs ''total_views'' (JInt m))) msg) stats_path =
      Some \<lparr>content = JObj (jassign kvs ''total_views'' (JInt m)), sha = next_sha r\<rparr> \<and>
    views (stored r stats_path (JObj (jassign kvs ''total_views'' (JInt m))) msg) = Some m"
proof -
  let ?d = "JObj (jassign kvs ''total_views'' (JInt m))"
  have s: "save_json r stats_path ?d msg = Inr (stored r stats_path ?d msg)"
    using assms(2) by (rule save_json_ok)
  with assms show ?thesis
    by (simp add: save_json_wf load_json_after_save views_def) (simp add: stored_def)
qed

section \<open>Properties of concurrent views\<close>

text \<open>
  C28. Bounds of the view counter under any interleaving of any number of sessions: from
  a store holding the count \<open>n0\<close>, in every reachable state the stored count is at least
  \<open>n0\<close> and at most \<open>n0\<close> plus the number of views completed. The count never exceeds
  the views, but equality is not guaranteed (C29).
\<close>

theorem views_bounded:
  assumes "repo_wf r" and "faults r stats_path = None" and "views r = Some n0"
    and "sstep\<^sup>*\<^sup>* (init_sys r) s"
  shows "\<exists>v. views (store s) = Some v \<and> n0 \<le> v \<and> v \<le> n0 + int (writes s)"
proof -
  from assms(4) have "count_inv n0 s"
  proof (induction rule: rtranclp_induct)
    case base
    show ?case using assms(1-3) by (rule count_inv_init)
  next
    case (step y z)
    then show ?case by (blast intro: count_inv_step)
  qed
  then show ?thesis by (auto simp: count_inv_def)
qed

text \<open>
  C29. Lost update: two sessions that both load the statistics before either saves
  complete two views, yet the count rises by one; run one after the other, the same two
  views raise it by two.
\<close>

theorem lost_update:
  assumes "repo_wf r" and "faults r stats_path = None" and "views r = Some n"
  shows "(\<exists>s. exec (init_sys r) [Read 0, Read 1, Write 0, Write 1] = Some s \<and>
            writes s = 2 \<and> views (store s) = Some (n + 1)) \<and>
         (\<exists>s. exec (init_sys r) [Read 0, Write 0, Read 1, Write 1] = Some s \<and>
            writes s = 2 \<and> views (store s) = Some (n + 2))"
proof -
  from view_read_views [OF assms(3)] obtain kvs
    where rd: "view_read r = Inr (JObj (jassign kvs ''total_views'' (JInt (n + 1))), n + 1)" ..
  from write_pending [OF assms(1,2), of kvs "n + 1"] obtain r1
    where w1: "view_write r (JObj (jassign kvs ''total_views'' (JInt (n + 1)))) = Inr r1"
      and r1: "repo_wf r1" "faults r1 stats_path = None" "views r1 = Some (n + 1)" by blast
  from write_pending [OF r1(1,2), of kvs "n + 1"] obtain r2
    where w2: "view_write r1 (JObj (jassign kvs ''total_views'' (JInt (n + 1)))) = Inr r2"
      and r2: "views r2 = Some (n + 1)" by blast
  from view_read_views [OF r1(3)] obtain kvs'
    where rd': "view_read r1 = Inr (JObj (jassign kvs' ''total_views'' (JInt (n + 1 + 1))), n + 1 + 1)" ..
  from write_pending [OF r1(1,2), of kvs' "n + 1 + 1"] obtain r2'
    where w2': "view_write r1 (JObj (jassign kvs' ''total_views'' (JInt (n + 1 + 1)))) = Inr r2'"
      and r2': "views r2' = Some (n + 1 + 1)" by blast
  show ?thesis
    using rd w1 w2 r2 rd' w2' r2' by (simp add: init_sys_def numeral_2_eq_2)
qed

text \<open>
  C30. The counter can go down: a session that loaded the count before another session
  completed two views saves its stale copy, and the stored count drops from \<open>n + 2\<close> to
  \<open>n + 1\<close>.
\<close>

theorem counter_decrease:
  assumes "repo_wf r" and "faults r stats_path = None" and "views r = Some n"
  shows "\<exists>s1 s2. exec (init_sys r) [Read 0, Read 1, Write 1, Read 1, Write 1] = Some s1 \<and>
    views (store s1) = Some (n + 2) \<and> act s1 (Write 0) = Some s2 \<and> views (store s2) = Some (n + 1)"
proof -
  from view_read_views [OF assms(3)] obtain kvs
    where rd: "view_read r = Inr (JObj (jassign kvs ''total_views'' (JInt (n + 1))), n + 1)" ..
  from write_pending [OF assms(1,2), of kvs "n + 1"] obtain r1
    where w1: "view_write r (JObj (jassign kvs ''total_views'' (JInt (n + 1)))) = Inr r1"
      and r1: "repo_wf r1" "faults r1 stats_path = None" "views r1 = Some (n + 1)" by blast
  from view_read_views [OF r1(3)] obtain kvs'
    where rd': "view_read r1 = Inr (JObj (jassign kvs' ''total_views'' (JInt (n + 1 + 1))), n + 1 + 1)" ..
  from write_pending [OF r1(1,2), of kvs' "n + 1 + 1"] obtain r2
    where w2: "view_write r1 (JObj (jassign kvs' ''total_views'' (JInt (n + 1 + 1)))) = Inr r2"
      and r2: "repo_wf r2" "faults r2 stats_path = None" "views r2 = Some (n + 1 + 1)" by blast
  from write_pending [OF r2(1,2), of kvs "n + 1"] obtain r3
    where w3: "view_write r2 (JObj (jassign kvs ''total_views'' (JInt (n + 1)))) = Inr r3"
      and r3: "views r3 = Some (n + 1)" by blast
  show ?thesis
    using rd w1 r1(3) rd' w2 r2(3) w3 r3 by (simp add: init_sys_def add.assoc)
qed

section \<open>Properties of the saves under concurrency\<close>

text \<open>
  C33. The version check does not prevent the lost update: \<open>save_json\<close> reads the
  \<open>sha\<close> when it saves, not when the statistics were loaded, so two sessions that both
  load before either saves, and then save one after the other, both succeed; no error is
  raised, and two completed views raise the count by one.
\<close>

theorem sha_check_misses_lost_update:
  assumes "repo_wf r" and "faults r stats_path = None" and "views r = Some n"
  shows "\<exists>s. fexec (finit r) [FRead 0, FRead 1, FBegin 0, FFinish 0, FBegin 1, FFinish 1] = Some s \<and>
    raised s = [] \<and> fwrites s = 2 \<and> views (fstore s) = Some (n + 1)"
proof -
  from view_read_views [OF assms(3)] obtain kvs
    where rd: "view_read r = Inr (JObj (jassign kvs ''total_views'' (JInt (n + 1))), n + 1)" ..
  let ?d = "JObj (jassign kvs ''total_views'' (JInt (n + 1)))"
  let ?m = "''Increment view count''"
  let ?r1 = "stored r stats_path ?d ?m"
  have b0: "\<exists>h. save_begin r stats_path = Inr h \<and> save_finish r stats_path ?d ?m h = Inr ?r1"
    using assms(2) by (cases "files r stats_path")
      (auto simp: save_begin_missing save_begin_found save_finish_create save_finish_update
        simp del: save_finish.simps)
  from stored_stats [OF assms(1,2), of kvs "n + 1" ?m]
  have r1: "faults ?r1 stats_path = None" "files ?r1 stats_path = Some \<lparr>content = ?d, sha = next_sha r\<rparr>"
    and wf1: "repo_wf ?r1" by auto
  from save_begin_found [OF r1] save_finish_update [OF r1(2)]
  have b1: "save_begin ?r1 stats_path = Inr (Some (next_sha r))"
    "save_finish ?r1 stats_path ?d ?m (Some (next_sha r)) = Inr (stored ?r1 stats_path ?d ?m)"
    by (simp_all del: save_finish.simps)
  from stored_stats [OF wf1 r1(1), of kvs "n + 1" ?m]
  have v: "views (stored ?r1 stats_path ?d ?m) = Some (n + 1)" by simp
  from b0 obtain h where "save_begin r stats_path = Inr h" "save_finish r stats_path ?d ?m h = Inr ?r1"
    by blast
  with rd b1 v show ?thesis by (simp add: finit_def numeral_2_eq_2 del: save_finish.simps)
qed

text \<open>
  C34. Two sessions whose saves overlap (both read the \<open>sha\<close>, or both find the file
  missing, before either writes): the first save succeeds, the second raises, with 409
  Conflict when the file existed and 422 when both tried to create it; one view is counted.
\<close>

theorem overlapping_saves_conflict:
  assumes "repo_wf r" and "faults r stats_path = None" and "views r = Some n"
  shows "\<exists>s. fexec (finit r) [FRead 0, FRead 1, FBegin 0, FBegin 1, FFinish 0, FFinish 1] = Some s \<and>
    raised s = [GithubException (if files r stats_path = None then 422 else 409)] \<and>
    fwrites s = 1 \<and> views (fstore s) = Some (n + 1)"
proof -
  from view_read_views [OF assms(3)] obtain kvs
    where rd: "view_read r = Inr (JObj (jassign kvs ''total_views'' (JInt (n + 1))), n + 1)" ..
  let ?d = "JObj (jassign kvs ''total_views'' (JInt (n + 1)))"
  let ?m = "''Increment view count''"
  let ?r1 = "stored r stats_path ?d ?m"
  from stored_stats [OF assms(1,2), of kvs "n + 1" ?m]
  have r1: "files ?r1 stats_path = Some \<lparr>content = ?d, sha = next_sha r\<rparr>"
    and v: "views ?r1 = Some (n + 1)" by auto
  show ?thesis
  proof (cases "files r stats_path")
    case None
    with assms(2) have "save_begin r stats_path = Inr None"
      "save_finish r stats_path ?d ?m None = Inr ?r1"
      by (simp_all add: save_begin_missing save_finish_create del: save_finish.simps)
    moreover from r1 have "save_finish ?r1 stats_path ?d ?m None = Inl (GithubException 422)"
      by (simp add: create_file_def)
    ultimately show ?thesis using rd v None by (simp add: finit_def del: save_finish.simps)
  next
    case (Some f)
    from assms(1) Some have "sha f \<noteq> next_sha r" by (fastforce simp: repo_wf_def)
    moreover from assms(2) Some have "save_begin r stats_path = Inr (Some (sha f))"
      "save_finish r stats_path ?d ?m (Some (sha f)) = Inr ?r1"
      by (simp_all add: save_begin_found save_finish_update del: save_finish.simps)
    moreover from r1 \<open>sha f \<noteq> next_sha r\<close>
    have "save_finish ?r1 stats_path ?d ?m (Some (sha f)) = Inl (GithubException 409)"
      by (simp add: update_file_def)
    ultimately show ?thesis using rd v Some by (simp add: finit_def del: save_finish.simps)
  qed
qed

section \<open>Witnesses\<close>

text \<open>An empty repository: the statistics file is missing, so the count starts at 0.\<close>

lemma empty_repo_views:
  "repo_wf \<lparr>files = Map.empty, faults = Map.empty, next_sha = 0, commits = []\<rparr>"
  "faults \<lparr>files = Map.empty, faults = Map.empty, next_sha = 0, commits = []\<rparr> stats_path = None"
  "views \<lparr>files = Map.empty, faults = Map.empty, next_sha = 0, commits = []\<rparr> = Some 0"
  by (simp_all add: repo_wf_def views_def app_eval)

theorem views_bounded_witness:
  "\<exists>s. exec (init_sys \<lparr>files = Map.empty, faults = Map.empty, next_sha = 0, commits = []\<rparr>) [Read 0, Read 1, Write 0, Write 1] = Some s \<and>
     writes s = 2 \<and> views (store s) = Some 1 \<and>
     (\<exists>v. views (store s) = Some v \<and> 0 \<le> v \<and> v \<le> 0 + int (writes s))"
proof -
  have "\<exists>s. exec (init_sys \<lparr>files = Map.empty, faults = Map.empty, next_sha = 0, commits = []\<rparr>) [Read 0, Read 1, Write 0, Write 1] = Some s \<and>
      writes s = 2 \<and> views (store s) = Some 1"
    by (simp add: init_sys_def view_read_def view_write_def views_def stored_def app_eval)
  then obtain s where e: "exec (init_sys \<lparr>files = Map.empty, faults = Map.empty, next_sha = 0, commits = []\<rparr>) [Read 0, Read 1, Write 0, Write 1] = Some s"
    and c: "writes s = 2" "views (store s) = Some 1" by blast
  from views_bounded [OF empty_repo_views exec_reach [OF e]] e c show ?thesis by blast
qed

theorem lost_update_witness:
  "(\<exists>s. exec (init_sys \<lparr>files = Map.empty, faults = Map.empty, next_sha = 0, commits = []\<rparr>) [Read 0, Read 1, Write 0, Write 1] = Some s \<and>
      writes s = 2 \<and> views (store s) = Some 1) \<and>
   (\<exists>s. exec (init_sys \<lparr>files = Map.empty, faults = Map.empty, next_sha = 0, commits = []\<rparr>) [Read 0, Write 0, Read 1, Write 1] = Some s \<and>
      writes s = 2 \<and> views (store s) = Some 2)"
  using lost_update [OF empty_repo_views] by simp

theorem counter_decrease_witness:
  "\<exists>s1 s2. exec (init_sys \<lparr>files = Map.empty, faults = Map.empty, next_sha = 0, commits = []\<rparr>) [Read 0, Read 1, Write 1, Read 1, Write 1] = Some s1 \<and>
    views (store s1) = Some 2 \<and> act s1 (Write 0) = Some s2 \<and> views (store s2) = Some 1"
  using counter_decrease [OF empty_repo_views] by simp

text \<open>A repository whose statistics file holds the count 5.\<close>

lemma stats_repo_views:
  "repo_wf \<lparr>files = [''data/stats.json'' \<mapsto> \<lparr>content = JObj [(''total_views'', JInt 5)], sha = 0\<rparr>], faults = Map.empty, next_sha = 1, commits = []\<rparr>"
  "faults \<lparr>files = [''data/stats.json'' \<mapsto> \<lparr>content = JObj [(''total_views'', JInt 5)], sha = 0\<rparr>], faults = Map.empty, next_sha = 1, commits = []\<rparr> stats_path = None"
  "views \<lparr>files = [''data/stats.json'' \<mapsto> \<lparr>content = JObj [(''total_views'', JInt 5)], sha = 0\<rparr>], faults = Map.empty, next_sha = 1, commits = []\<rparr> = Some 5"
  by (simp_all add: repo_wf_def views_def app_eval)

theorem sha_check_misses_lost_update_witness:
  "\<exists>s. fexec (finit \<lparr>files = [''data/stats.json'' \<mapsto> \<lparr>content = JObj [(''total_views'', JInt 5)], sha = 0\<rparr>], faults = Map.empty, next_sha = 1, commits = []\<rparr>)
      [FRead 0, FRead 1, FBegin 0, FFinish 0, FBegin 1, FFinish 1] = Some s \<and>
    raised s = [] \<and> fwrites s = 2 \<and> views (fstore s) = Some 6"
  using sha_check_misses_lost_update [OF stats_repo_views] by simp

theorem overlapping_saves_conflict_witness:
  "(\<exists>s. fexec (finit \<lparr>files = Map.empty, faults = Map.empty, next_sha = 0, commits = []\<rparr>)
      [FRead 0, FRead 1, FBegin 0, FBegin 1, FFinish 0, FFinish 1] = Some s \<and>
    raised s = [GithubException 422] \<and> fwrites s = 1 \<and> views (fstore s) = Some 1) \<and>
   (\<exists>s. fexec (finit \<lparr>files = [''data/stats.json'' \<mapsto> \<lparr>content = JObj [(''total_views'', JInt 5)], sha = 0\<rparr>], faults = Map.empty, next_sha = 1, commits = []\<rparr>)
      [FRead 0, FRead 1, FBegin 0, FBegin 1, FFinish 0, FFinish 1] = Some s \<and>
    raised s = [GithubException 409] \<and> fwrites s = 1 \<and> views (fstore s) = Some 6)"
  using overlapping_saves_conflict [OF empty_repo_views] overlapping_saves_conflict [OF stats_repo_views]
  by (simp add: stats_path_def)

end
