(* ===== verification/Spec2Isabelle.thy ===== *)
theory Spec2Isabelle
  imports Collector Reporter App Sessions
begin

text \<open>
  \<^bold>\<open>A verification development of the AI IT newsroom (soonjongnim/webai).\<close>

  \<^bold>\<open>The program.\<close> A Streamlit application (\<open>src/app.py\<close>) lets readers view the
  latest digest and lets an administrator curate RSS feeds and trigger a report run. A run
  loads the feed list from a JSON store, calls \<open>NewsCollector.fetch_news\<close> to collect
  the items published within 72 hours (\<open>src/news_collector.py\<close>, the Collector), then
  \<open>NewsCollector.generate_report\<close> to have a Gemini model write the digest (the
  Reporter), and stores the report in an archive keyed by the minute of the run. The store
  is \<open>GitHubStorage\<close> (\<open>src/github_storage.py\<close>): JSON files read and written in a
  GitHub repository, with defaults when a file is missing.

  \<^bold>\<open>Library layout.\<close>
  \<^item> \<open>Prelude\<close>: Python strings as UTF-8 byte strings (\<open>utf8\<close> encodes the Korean
    literals), the string operations the code uses (\<open>in\<close>, \<open>lower\<close>, \<open>replace\<close>,
    \<open>join\<close>, \<open>str\<close> of an optional value) and their lemmas, shared list lemmas.
  \<^item> \<open>Collector\<close>: \<open>fetch_news\<close> (lines 27--55). Records \<open>entry\<close>, \<open>feed\<close> and
    \<open>news_item\<close> mirror the feedparser objects and the dict the code builds; the network is
    the parameter \<open>parse\<close>, the clock the parameter \<open>now\<close> (read once, as in line 30).
    \<open>process_entry\<close>, \<open>process_entries\<close> and \<open>fetch_loop\<close> are the loop bodies and
    loops; exceptions are \<open>Inl\<close> values, and the log of \<open>print\<close> is returned. An abstract
    specification (\<open>recent\<close>, \<open>faulty\<close>, \<open>feed_items\<close>, \<open>source_items\<close>,
    \<open>source_error\<close>) states per entry and per source what is collected, and
    \<open>fetch_loop_spec\<close> proves that the loops implement it.
  \<^item> \<open>Reporter\<close>: the constructor (lines 10--25) and \<open>generate_report\<close> (lines 57--119).
    The Gemini client is a record of its two calls threading an opaque world, so quota and
    availability may change between calls. \<open>discover\<close> and \<open>select_models\<close> model the
    best-effort listing (line 81--86), \<open>merge_models\<close> the roster (lines 89--93),
    \<open>try_ids\<close> and \<open>try_models\<close> the nested fallback loop (lines 95--114) whose state
    \<open>gen_state\<close> holds the world, \<open>last_error\<close> and the identifiers called so far.
    \<open>attempt_seq\<close> and \<open>decisive\<close> specify the loop: the attempts in order, and the
    outcomes that end it.
  \<^item> \<open>Storage\<close>: \<open>GitHubStorage\<close> (\<open>src/github_storage.py\<close>). The repository is a
    record \<open>repo\<close> of files (JSON value and \<open>sha\<close>), injected faults per path, the next
    \<open>sha\<close> and the commit log; \<open>get_contents\<close>, \<open>update_file\<close>, \<open>create_file\<close> are the
    PyGithub calls (404 missing, 409 stale \<open>sha\<close>, 422 existing file); \<open>load_json\<close>
    (lines 17--34) returns the value, the default of \<open>default_for\<close> on 404, or raises;
    \<open>save_json\<close> (36--56) updates with the \<open>sha\<close> it reads or creates on 404;
    \<open>init_storage\<close> is the constructor's credential lookup (8--12). A Python dict is an
    association list (\<open>jlookup\<close>, \<open>jassign\<close>: \<open>d[k]\<close> and \<open>d[k] = v\<close>).
  \<^item> \<open>App\<close>: the page script \<open>src/app.py\<close>. \<open>update_view_count\<close> (23--27), the
    newsroom page \<open>newsroom\<close> (30--46), the password gate \<open>admin_password\<close>/\<open>admin_ok\<close>
    (52--57), \<open>add_feed\<close> (64--72), \<open>delete_feed\<close> (76--83) and \<open>run_analysis\<close>
    (88--104), which composes \<open>fetch_news\<close> and \<open>generate_report\<close> and writes the
    archive key of the run's minute. Python's dynamic typing is kept: a stored value of the
    wrong shape gives the exception the code would raise (\<open>TypeError\<close>, \<open>KeyError\<close>,
    \<open>AttributeError\<close>). A page run is an \<open>event\<close>: the newsroom, or the dashboard
    with the typed password and the button pressed (\<open>dashboard\<close>); \<open>app_step\<close> runs one
    behind the password gate,
    \<open>app_run\<close> a sequence of them, threading the store and the model backend's world.
  \<^item> \<open>Sessions\<close>: concurrent Streamlit sessions. \<open>update_view_count\<close> is split where
    other sessions can run (\<open>view_read\<close>: lines 24--25, \<open>view_write\<close>: line 26); any
    number of sessions interleave by the inductive relation \<open>sstep\<close>, or by the executable
    scheduler \<open>act\<close>/\<open>exec\<close> over a list of actions; \<open>fact\<close>/\<open>fexec\<close>
    schedule the save's two calls (\<open>save_begin\<close>, \<open>save_finish\<close> of \<open>Storage\<close>)
    separately.
  \<^item> this theory: the header and the properties that span the collector and the reporter.

  \<^bold>\<open>What is proved.\<close> Collector: the loops refine the specification (C6); every item is
  within the window of the run's single \<open>now\<close> and comes from a resolved timestamp
  (C7); sources are isolated, results of a concatenated url list concatenate (C8); a failing
  source is logged and contributes nothing (C9); a recent entry lacking a title or link
  truncates its feed (C13). Reporter: first success wins with the exact call order (C1);
  a fatal error short-circuits (C2); total exhaustion reports the error of the last attempt,
  the prefixed form of the last model, and the first 15 models (C3); the roster is
  duplicate-free, keeps the priority order and holds exactly candidates and stripped
  discovered names (C5, C15); calls are always a prefix of the attempt sequence, at most two
  per model (C10); discovery failure, including a model whose
  \<open>supported_generation_methods\<close> is \<open>None\<close>, falls back to the static list (C11,
  C12); a backend answering only empty texts yields a diagnostic whose last error is
  \<open>None\<close> (C14); key lookup precedence (C16). Across components: a run with no recent
  entry produces the no-news text without any call to the model service (C4), and the
  prompt sent to every model contains every collected item's title and link (C17).
  Storage: save then load returns the value (C18); a save changes only its path, adds one
  commit and a fresh \<open>sha\<close> (C19); missing files load as the default
  their path names, an empty list for any path mentioning \<open>feeds\<close> (C20); other faults propagate from both operations (C21). App: every sequence of page runs keeps the
  repository well formed and the feed list a list of distinct non-empty urls (C22); a view
  increments the stored count and touches nothing else (C23), and \<open>k\<close> views in sequence
  add exactly \<open>k\<close> (C24); the newsroom shows the greatest archive key and its report
  (C25); the analysis run stores \<open>generate_report\<close> of \<open>fetch_news\<close> of the feed urls
  under its minute (C26), and a second run in the same minute erases the first report (C27).
  Runs whose dashboard requests all lack the expected password change only the view counter
  and never call the backend (C31); with no password configured, \<open>admin123\<close> opens the
  dashboard (C32).
  Sessions: under any interleaving the count stays between its start and its start plus the
  views completed (C28, by rule induction on \<open>sstep\<close>); two overlapping views raise it by
  one (C29, lost update) and a stale save makes it go down (C30). Lemmas check that the two
  phases compose to the handler, that the scheduler agrees with the step relation, and that
  \<open>save_json\<close> is its two calls, the read of the \<open>sha\<close> and the update or creation; with the save split
  into them, the lost update still happens without any error, because the \<open>sha\<close> is read
  at save time, not at load time (C33), and overlapping saves make the second one raise 409,
  or 422 when both create the file (C34).

  \<^bold>\<open>Loops and termination.\<close> Every loop of the core is over a finite list (urls,
  entries, discovered models, roster, the two identifier forms), so every definition is
  structural recursion and total; no fuel is needed. \<open>py_replace\<close> recurses on a
  shrinking suffix, with a measure. The bound on the number of model calls is C10.

  \<^bold>\<open>Modelling choices.\<close> Moments are integer microseconds (\<open>datetime\<close>'s resolution);
  \<open>time.mktime\<close> of a parsed struct is taken as given (seconds), so local-time
  conversion is outside the model. The \<open>strftime\<close> rendering of \<open>published\<close> is not
  modelled: items keep the moment. \<open>lower()\<close> is modelled on ASCII, which decides the
  same as Python's for the tokens searched (see \<open>Prelude\<close>). Exceptions raised by
  \<open>generate_content\<close> are represented by \<open>str(e)\<close>.

  \<^bold>\<open>Not modelled.\<close> JSON text encoding (\<open>json.dumps\<close>/\<open>json.loads\<close>): the
  store holds JSON values, so a value round-trips exactly; Streamlit rendering, widgets and
  \<open>st.cache_resource\<close>; the network libraries (feedparser, google-genai, PyGithub),
  which are parameters of the model (\<open>parse\<close>, the client record, the \<open>repo\<close> calls);
  \<open>time.mktime\<close> and \<open>strftime\<close> (the minute \<open>today\<close> is a parameter of a run).
  The GitHub API calls are atomic: each one of \<open>get_contents\<close>, \<open>update_file\<close>,
  \<open>create_file\<close> is one step of the schedules.
\<close>

section \<open>Properties across the collector and the reporter\<close>

lemma fetch_news_items:
  "fst (fetch_news parse now rss_urls) = concat (map (source_items parse now) rss_urls)"
  by (simp add: fetch_news_def fetch_loop_spec)

lemma source_items_no_recent:
  "\<forall>f. parse u = Inr f \<longrightarrow> (\<forall>e \<in> set (entries f). \<not> recent now e) \<Longrightarrow>
   source_items parse now u = []"
  by (auto simp: source_items_def feed_items_def filter_empty_conv split: sum.splits
      dest: set_takeWhileD)

lemma item_block_in_context:
  "it \<in> set items \<Longrightarrow> py_in (item_block it) (news_context items)"
proof (induction items)
  case Nil
  then show ?case by simp
next
  case (Cons x xs)
  then show ?case
    by (auto simp: news_context_def py_in_self intro: py_in_append_left py_in_append_right)
qed

text \<open>
  C4. A run in which no parsed feed has an entry within the window collects no item, and
  the report is then the fixed no-news text, produced without listing the models or calling
  the model service: the world is untouched and no identifier is called.
\<close>

theorem pipeline_no_recent:
  assumes "\<forall>u \<in> set rss_urls. \<forall>f. parse u = Inr f \<longrightarrow> (\<forall>e \<in> set (entries f). \<not> recent now e)"
  shows "generate_report self c w (fst (fetch_news parse now rss_urls)) =
    (no_news_msg, \<lparr>world = w, last_error = None, calls = []\<rparr>)"
proof -
  from assms have "fst (fetch_news parse now rss_urls) = []"
    by (simp add: fetch_news_items source_items_no_recent)
  then show ?thesis by (simp add: generate_report_def)
qed

text \<open>
  C17. The prompt sent with every call contains, for each collected item, its title and
  its link (the instruction that every item keep its original link can only be followed
  because the link is in the prompt).
\<close>

theorem pipeline_prompt_has_items:
  assumes "it \<in> set (fst (fetch_news parse now rss_urls))"
  shows "py_in (title it) (build_prompt (fst (fetch_news parse now rss_urls))) \<and>
    py_in (link it) (build_prompt (fst (fetch_news parse now rss_urls)))"
proof -
  let ?items = "fst (fetch_news parse now rss_urls)"
  have blk: "py_in (item_block it) (news_context ?items)"
    using assms by (rule item_block_in_context)
  have "py_in (title it) (item_block it)" "py_in (link it) (item_block it)"
    unfolding item_block_def
     apply (rule py_in_append_right, rule py_in_append_right, rule py_in_append_left,
        rule py_in_self)
    by (rule py_in_append_right, rule py_in_append_right, rule py_in_append_right,
        rule py_in_append_right, rule py_in_append_right, rule py_in_append_right,
        rule py_in_append_left, rule py_in_self)
  with blk have "py_in (title it) (news_context ?items)" "py_in (link it) (news_context ?items)"
    by (auto simp: py_in_sublist intro: sublist_order.order.trans)
  then show ?thesis
    unfolding build_prompt_def by (auto intro: py_in_append_left py_in_append_right)
qed

section \<open>Witnesses\<close>

text \<open>One source whose only entry is four days old at the time of the run.\<close>

theorem pipeline_no_recent_witness:
  "generate_report \<lparr>api_key = ''k'', candidate_models = default_candidates\<rparr>
     \<lparr>models_list = \<lambda>w. (Inl ''unavailable'', Suc w),
      generate_content = \<lambda>w a p. (Response (Some ''report''), Suc w)\<rparr> (0::nat)
     (fst (fetch_news (\<lambda>u. Inr \<lparr>feed_title = Some ''T'', entries =
         [\<lparr>entry_title = Some ''x'', entry_link = Some ''l'', entry_summary = None,
           published_parsed = Some 0, updated_parsed = None\<rparr>]\<rparr>)
       (4 * 24 * 3600 * 1000000) [''a''])) =
   (no_news_msg, \<lparr>world = 0, last_error = None, calls = []\<rparr>)"
  by (rule pipeline_no_recent)
    (simp add: recent_def resolve_time_def from_timestamp_def threshold_def)

theorem pipeline_prompt_has_items_witness:
  "py_in ''x'' (build_prompt (fst (fetch_news (\<lambda>u. Inr \<lparr>feed_title = Some ''T'', entries =
       [\<lparr>entry_title = Some ''x'', entry_link = Some ''l'', entry_summary = None,
         published_parsed = Some 100, updated_parsed = None\<rparr>]\<rparr>) 200000000 [''a'']))) \<and>
   py_in ''l'' (build_prompt (fst (fetch_news (\<lambda>u. Inr \<lparr>feed_title = Some ''T'', entries =
       [\<lparr>entry_title = Some ''x'', entry_link = Some ''l'', entry_summary = None,
         published_parsed = Some 100, updated_parsed = None\<rparr>]\<rparr>) 200000000 [''a''])))"
proof -
  let ?p = "\<lambda>u. Inr \<lparr>feed_title = Some ''T'', entries =
       [\<lparr>entry_title = Some ''x'', entry_link = Some ''l'', entry_summary = None,
         published_parsed = Some 100, updated_parsed = None\<rparr>]\<rparr>"
  let ?it = "\<lparr>title = ''x'', link = ''l'', summary = '''', source = ''T'', published = 100000000\<rparr>"
  have h: "?it \<in> set (fst (fetch_news ?p 200000000 [''a'']))"
    by (simp add: collector_eval)
  from pipeline_prompt_has_items [OF h] show ?thesis by simp
qed

end
